theory Spec2Isabelle
  imports Complex_Main
begin

section \<open>Conventions of the embedding\<close>

text \<open>
  The pricing and scoring code of the repository is Python over \<open>float\<close>, \<open>int\<close>,
  \<open>str\<close>, enums, dataclasses and dictionaries. In this development a Python
  \<open>float\<close> is a \<^typ>\<open>real\<close> (rounding is abstracted: the formulas are read as exact
  arithmetic), a Python \<open>int\<close> is an \<^typ>\<open>int\<close>, a dataclass is a record, an
  \<open>Enum\<close> is a datatype, and every exception the modelled code can raise is a value
  of \<open>py_error\<close> returned on the left of a sum. Calls to the logger are not modelled.
\<close>

datatype py_error = ZeroDivisionError | KeyError | ValueError

text \<open>Python's true division \<open>x / y\<close> on numbers: it raises on a zero divisor.\<close>

definition py_div :: "real \<Rightarrow> real \<Rightarrow> py_error + real" where
  "py_div x y = (if y = 0 then Inl ZeroDivisionError else Inr (x / y))"

section \<open>AFISS scoring (alex\_anthropic.py, alex\_agent.py)\<close>

datatype ProjectComplexity = LOW | MODERATE | HIGH | EXTREME

text \<open>
  The dictionary \<open>domain_scores\<close> of \<open>_parse_assessment_response\<close> and of
  \<open>assess_project\<close> is created with exactly the five domain keys and only those keys are
  ever assigned, so it is a record of five numbers.
\<close>

record domain_scores =
  access :: real
  fall_zone :: real
  interference :: real
  severity :: real
  site_conditions :: real

record AFISSAssessment =
  access_score :: real
  fall_zone_score :: real
  interference_score :: real
  severity_score :: real
  site_conditions_score :: real
  composite_score :: real
  complexity :: ProjectComplexity
  multiplier_range :: "real \<times> real"

text \<open>\<open>_determine_complexity\<close> (the same text in both files).\<close>

definition determine_complexity :: "real \<Rightarrow> ProjectComplexity \<times> (real \<times> real)" where
  "determine_complexity cs =
     (if cs \<le> 28 then (LOW, (1.12, 1.28))
      else if cs \<le> 46 then (MODERATE, (1.45, 1.85))
      else if cs \<le> 58 then (HIGH, (2.1, 2.8))
      else (EXTREME, (2.5, 3.5)))"

text \<open>
  The scoring tail of \<open>_parse_assessment_response\<close> (alex\_anthropic.py, lines 399--424):
  the composite score, the tier and the assessment built from the domain scores. The text
  fields of the assessment (factors, recommendations, reasoning) are left out.
\<close>

definition parse_assessment_composite :: "domain_scores \<Rightarrow> real" where
  "parse_assessment_composite ds =
     access ds * 0.20 + fall_zone ds * 0.25 + interference ds * 0.20 +
     severity ds * 0.30 + site_conditions ds * 0.05"

definition parse_assessment_response :: "domain_scores \<Rightarrow> AFISSAssessment" where
  "parse_assessment_response ds =
     (let cs = parse_assessment_composite ds;
          (cx, multiplier) = determine_complexity cs
      in \<lparr> access_score = access ds,
           fall_zone_score = fall_zone ds,
           interference_score = interference ds,
           severity_score = severity ds,
           site_conditions_score = site_conditions ds,
           composite_score = cs,
           complexity = cx,
           multiplier_range = multiplier \<rparr>)"

text \<open>
  The scoring tail of \<open>assess_project\<close> (alex\_agent.py, lines 193--217): the weighted
  scores are put in a dictionary and added up with \<open>sum\<close>, which starts from 0 and adds
  the values in insertion order.
\<close>

definition weighted_scores :: "domain_scores \<Rightarrow> real list" where
  "weighted_scores ds =
     [access ds * 0.20, fall_zone ds * 0.25, interference ds * 0.20,
      severity ds * 0.30, site_conditions ds * 0.05]"

definition assess_project :: "domain_scores \<Rightarrow> AFISSAssessment" where
  "assess_project ds =
     (let cs = foldl (+) 0 (weighted_scores ds);
          (cx, multiplier) = determine_complexity cs
      in \<lparr> access_score = access ds,
           fall_zone_score = fall_zone ds,
           interference_score = interference ds,
           severity_score = severity ds,
           site_conditions_score = site_conditions ds,
           composite_score = cs,
           complexity = cx,
           multiplier_range = multiplier \<rparr>)"

text \<open>The tiers in increasing order of risk, to state that the classification is monotone.\<close>

fun complexity_rank :: "ProjectComplexity \<Rightarrow> nat" where
  "complexity_rank LOW = 0"
| "complexity_rank MODERATE = 1"
| "complexity_rank HIGH = 2"
| "complexity_rank EXTREME = 3"

section \<open>TreeScore (alex\_anthropic.py, demo\_alex\_complete\_pricing.py)\<close>

text \<open>
  \<open>_extract_treescore\<close>: the response text is a parameter of the source function that
  its body never reads.
\<close>

definition extract_treescore :: "string \<Rightarrow> real \<Rightarrow> real \<Rightarrow> real \<Rightarrow> string \<Rightarrow> real" where
  "extract_treescore response height canopy_radius dbh service_type =
     (if service_type = ''removal'' then height * (canopy_radius * 2) * (dbh / 12)
      else if service_type = ''stump_grinding'' then (height + 12) * dbh
      else height * canopy_radius * (dbh / 24))"

text \<open>\<open>AlexCompletePricingDemo.calculate_treescore\<close>.\<close>

definition calculate_treescore :: "real \<Rightarrow> real \<Rightarrow> real \<Rightarrow> string \<Rightarrow> real" where
  "calculate_treescore height canopy_radius dbh service_type =
     (let base_points =
        (if service_type = ''removal'' then height * (canopy_radius * 2) * (dbh / 12)
         else if service_type = ''stump_grinding'' then (height + 12) * dbh
         else height * canopy_radius * (dbh / 24))
      in base_points)"

section \<open>Sequencing of fallible steps, the clock, strings\<close>

text \<open>An exception raised by a step ends the computation with that exception.\<close>

definition bind_err :: "py_error + 'a \<Rightarrow> ('a \<Rightarrow> py_error + 'b) \<Rightarrow> py_error + 'b" where
  "bind_err r f = (case r of Inl e \<Rightarrow> Inl e | Inr v \<Rightarrow> f v)"

text \<open>
  \<open>datetime.now()\<close> reads the wall clock. The reading is an explicit parameter \<open>now\<close> of
  every function that takes it; one call of a modelled function sees one reading.
\<close>

record datetime =
  dt_year :: nat
  dt_month :: nat
  dt_day :: nat
  dt_hour :: nat
  dt_minute :: nat
  dt_second :: nat

definition digit_char :: "nat \<Rightarrow> char" where
  "digit_char n = ''0123456789'' ! (n mod 10)"

definition pad2 :: "nat \<Rightarrow> string" where
  "pad2 n = [digit_char (n div 10), digit_char n]"

definition pad4 :: "nat \<Rightarrow> string" where
  "pad4 n = [digit_char (n div 1000), digit_char (n div 100)] @ pad2 n"

text \<open>\<open>strftime('%Y%m%d_%H%M%S')\<close>, for the four-digit years of a \<open>datetime\<close>.\<close>

definition strftime_stamp :: "datetime \<Rightarrow> string" where
  "strftime_stamp t =
     pad4 (dt_year t) @ pad2 (dt_month t) @ pad2 (dt_day t) @ ''_'' @
     pad2 (dt_hour t) @ pad2 (dt_minute t) @ pad2 (dt_second t)"

text \<open>\<open>str.strip()\<close> on ASCII text, and the first field of \<open>str.split(',')\<close>.\<close>

definition is_space :: "char \<Rightarrow> bool" where
  "is_space c = (c \<in> set [CHR '' '', CHR 0x09, CHR 0x0A, CHR 0x0B, CHR 0x0C, CHR 0x0D,
                            CHR 0x1C, CHR 0x1D, CHR 0x1E, CHR 0x1F])"

definition py_strip :: "string \<Rightarrow> string" where
  "py_strip s = rev (dropWhile is_space (rev (dropWhile is_space s)))"

definition split_comma_first :: "string \<Rightarrow> string" where
  "split_comma_first s = takeWhile (\<lambda>c. c \<noteq> CHR '','') s"

text \<open>\<open>sub in s\<close> on strings.\<close>

fun str_contains :: "string \<Rightarrow> string \<Rightarrow> bool" where
  "str_contains [] sub = (sub = [])"
| "str_contains (c # cs) sub = (take (length sub) (c # cs) = sub \<or> str_contains cs sub)"

section \<open>Equipment cost model (equipment\_cost\_intelligence.py)\<close>

datatype EquipmentCategory =
    SKID_STEER_MULCHER | COMPACT_TRACK_LOADER | MINI_EXCAVATOR | BUCKET_TRUCK
  | CHIPPER | STUMP_GRINDER | LOG_TRUCK | PICKUP_TRUCK

fun category_value :: "EquipmentCategory \<Rightarrow> string" where
  "category_value SKID_STEER_MULCHER = ''skid_steer_mulcher''"
| "category_value COMPACT_TRACK_LOADER = ''compact_track_loader''"
| "category_value MINI_EXCAVATOR = ''mini_excavator''"
| "category_value BUCKET_TRUCK = ''bucket_truck''"
| "category_value CHIPPER = ''chipper''"
| "category_value STUMP_GRINDER = ''stump_grinder''"
| "category_value LOG_TRUCK = ''log_truck''"
| "category_value PICKUP_TRUCK = ''pickup_truck''"

text \<open>\<open>EquipmentCategory(value)\<close>: the member with that value, or \<open>ValueError\<close>.\<close>

definition EquipmentCategory_of :: "string \<Rightarrow> py_error + EquipmentCategory" where
  "EquipmentCategory_of v =
     (if v = ''skid_steer_mulcher'' then Inr SKID_STEER_MULCHER
      else if v = ''compact_track_loader'' then Inr COMPACT_TRACK_LOADER
      else if v = ''mini_excavator'' then Inr MINI_EXCAVATOR
      else if v = ''bucket_truck'' then Inr BUCKET_TRUCK
      else if v = ''chipper'' then Inr CHIPPER
      else if v = ''stump_grinder'' then Inr STUMP_GRINDER
      else if v = ''log_truck'' then Inr LOG_TRUCK
      else if v = ''pickup_truck'' then Inr PICKUP_TRUCK
      else Inl ValueError)"

datatype SeverityFactor = LIGHT_RESIDENTIAL | STANDARD_WORK | HEAVY_VEGETATION | DISASTER_RECOVERY

fun severity_value :: "SeverityFactor \<Rightarrow> real" where
  "severity_value LIGHT_RESIDENTIAL = 1.0"
| "severity_value STANDARD_WORK = 1.1"
| "severity_value HEAVY_VEGETATION = 1.25"
| "severity_value DISASTER_RECOVERY = 1.45"

record EquipmentDefaults =
  d_category :: EquipmentCategory
  example_models :: string
  msrp_new :: real
  salvage_percent :: real
  life_hours :: int
  fuel_burn_gph :: real
  maintenance_factor :: real
  d_notes :: string

record SmallToolCategory =
  tool_name :: string
  example_items :: string
  avg_cost :: real
  life_years :: real
  basis :: string
  default_cost_per_hour :: real

record EquipmentCostBreakdown =
  equipment_id :: string
  category :: EquipmentCategory
  make_model :: string
  depreciation_per_hour :: real
  interest_per_hour :: real
  insurance_taxes_storage_per_hour :: real
  total_ownership_per_hour :: real
  fuel_per_hour :: real
  lubrication_per_hour :: real
  repairs_maintenance_per_hour :: real
  wear_parts_per_hour :: real
  total_operating_per_hour :: real
  total_cost_per_hour :: real
  severity_factor :: real
  severity_adjusted_cost :: real

text \<open>The attributes of an \<open>EquipmentCostIntelligence\<close> object.\<close>

record EquipmentCostIntelligence =
  equipment_defaults :: "EquipmentCategory \<rightharpoonup> EquipmentDefaults"
  small_tools_defaults :: "SmallToolCategory list"
  fuel_price :: real
  interest_rate :: real
  annual_hours :: int

text \<open>\<open>_load_equipment_defaults\<close>: the table has an entry for each of the eight categories.\<close>

fun load_equipment_defaults :: "EquipmentCategory \<Rightarrow> EquipmentDefaults" where
  "load_equipment_defaults SKID_STEER_MULCHER =
     \<lparr> d_category = SKID_STEER_MULCHER,
       example_models = ''Bobcat T770 + Denis Cimaf, Cat 299D3 XE'',
       msrp_new = 118000, salvage_percent = 20, life_hours = 6000, fuel_burn_gph = 5.5,
       maintenance_factor = 100, d_notes = ''Heavy vegetation factor 1.25'' \<rparr>"
| "load_equipment_defaults COMPACT_TRACK_LOADER =
     \<lparr> d_category = COMPACT_TRACK_LOADER,
       example_models = ''Bobcat T76, Cat 279D3'',
       msrp_new = 75000, salvage_percent = 25, life_hours = 6000, fuel_burn_gph = 4.0,
       maintenance_factor = 80, d_notes = ''Residential/light work'' \<rparr>"
| "load_equipment_defaults MINI_EXCAVATOR =
     \<lparr> d_category = MINI_EXCAVATOR,
       example_models = ''Cat 305, Bobcat E50'',
       msrp_new = 70000, salvage_percent = 25, life_hours = 8000, fuel_burn_gph = 3.0,
       maintenance_factor = 75, d_notes = [] \<rparr>"
| "load_equipment_defaults BUCKET_TRUCK =
     \<lparr> d_category = BUCKET_TRUCK,
       example_models = ''Altec/Versalift on Ford F750'',
       msrp_new = 165000, salvage_percent = 30, life_hours = 10000, fuel_burn_gph = 6.5,
       maintenance_factor = 60, d_notes = ''DOT-regulated'' \<rparr>"
| "load_equipment_defaults CHIPPER =
     \<lparr> d_category = CHIPPER,
       example_models = ''Bandit 150XP, Vermeer BC1500'',
       msrp_new = 50000, salvage_percent = 25, life_hours = 5000, fuel_burn_gph = 2.5,
       maintenance_factor = 90, d_notes = ''Knife sharpening cost separate'' \<rparr>"
| "load_equipment_defaults STUMP_GRINDER =
     \<lparr> d_category = STUMP_GRINDER,
       example_models = ''Carlton 7015, Rayco RG80'',
       msrp_new = 45000, salvage_percent = 25, life_hours = 5000, fuel_burn_gph = 2.8,
       maintenance_factor = 90, d_notes = ''Teeth wear in wear parts pool'' \<rparr>"
| "load_equipment_defaults LOG_TRUCK =
     \<lparr> d_category = LOG_TRUCK,
       example_models = ''Palfinger/Midwest log loader on Mack'',
       msrp_new = 220000, salvage_percent = 35, life_hours = 12000, fuel_burn_gph = 7.0,
       maintenance_factor = 65, d_notes = [] \<rparr>"
| "load_equipment_defaults PICKUP_TRUCK =
     \<lparr> d_category = PICKUP_TRUCK,
       example_models = ''Ford F-350/F-450 diesel'',
       msrp_new = 65000, salvage_percent = 40, life_hours = 8000, fuel_burn_gph = 2.5,
       maintenance_factor = 50, d_notes = ''Life hrs ~ mph '' @ [CHR 0xC3, CHR 0x97] @ '' 50'' \<rparr>"

text \<open>\<open>_load_small_tools_defaults\<close>.\<close>

definition load_small_tools_defaults :: "SmallToolCategory list" where
  "load_small_tools_defaults =
     [\<lparr> tool_name = ''Chainsaws & Power Tools'',
        example_items = ''Stihl MS 500i, MS 362, pole saws, blowers'',
        avg_cost = 1000, life_years = 2, basis = ''per_unit'', default_cost_per_hour = 0.42 \<rparr>,
      \<lparr> tool_name = ''Climbing Gear'',
        example_items = ''Rope, saddle, helmet, carabiners, lanyards'',
        avg_cost = 1500, life_years = 3, basis = ''per_climber'', default_cost_per_hour = 0.42 \<rparr>,
      \<lparr> tool_name = ''Hand Tools'',
        example_items = ''Loppers, hand saws, rakes, wedges'',
        avg_cost = 400, life_years = 2, basis = ''per_crew'', default_cost_per_hour = 0.17 \<rparr>,
      \<lparr> tool_name = ''Safety Gear'',
        example_items = ''Helmets, gloves, glasses, hearing protection'',
        avg_cost = 300, life_years = 1, basis = ''per_person'', default_cost_per_hour = 0.25 \<rparr>,
      \<lparr> tool_name = ''Rigging Gear'',
        example_items = ''Slings, blocks, pulleys, ropes'',
        avg_cost = 1000, life_years = 3, basis = ''per_crew'', default_cost_per_hour = 0.28 \<rparr>,
      \<lparr> tool_name = ''Fuel for Small Tools'',
        example_items = ''Mixed gas, bar oil'',
        avg_cost = 400, life_years = 1, basis = ''per_crew'', default_cost_per_hour = 0.33 \<rparr>,
      \<lparr> tool_name = ''PPE Consumables'',
        example_items = ''Ear plugs, respirator filters'',
        avg_cost = 50, life_years = 0.25, basis = ''per_person'', default_cost_per_hour = 0.10 \<rparr>]"

text \<open>\<open>EquipmentCostIntelligence.__init__\<close>.\<close>

definition EquipmentCostIntelligence_init :: EquipmentCostIntelligence where
  "EquipmentCostIntelligence_init =
     \<lparr> equipment_defaults = (\<lambda>c. Some (load_equipment_defaults c)),
       small_tools_defaults = load_small_tools_defaults,
       fuel_price = 4.25,
       interest_rate = 0.06,
       annual_hours = 1200 \<rparr>"

text \<open>
  \<open>calculate_equipment_cost\<close>. The coroutine awaits nothing, so it is an ordinary
  function of the object, the clock reading and its arguments. The purchase price is the
  one given, or the default MSRP, written down by 8 percent a year when a model year
  before the current one is given.
\<close>

definition effective_purchase_price ::
  "EquipmentDefaults \<Rightarrow> datetime \<Rightarrow> real option \<Rightarrow> int option \<Rightarrow> real" where
  "effective_purchase_price defaults now purchase_price year =
     (case purchase_price of
        Some p \<Rightarrow> p
      | None \<Rightarrow>
          (case year of
             None \<Rightarrow> msrp_new defaults
           | Some y \<Rightarrow>
               if y \<noteq> 0 \<and> y < int (dt_year now)
               then msrp_new defaults * (1 - 0.08) ^ nat (int (dt_year now) - y)
               else msrp_new defaults))"

definition default_make_model :: "EquipmentDefaults \<Rightarrow> string option \<Rightarrow> string" where
  "default_make_model defaults mk_model =
     (case mk_model of
        None \<Rightarrow> py_strip (split_comma_first (example_models defaults))
      | Some m \<Rightarrow>
          if m = [] then py_strip (split_comma_first (example_models defaults)) else m)"

definition calculate_equipment_cost ::
  "EquipmentCostIntelligence \<Rightarrow> datetime \<Rightarrow> EquipmentCategory \<Rightarrow> string option \<Rightarrow>
   real option \<Rightarrow> int option \<Rightarrow> SeverityFactor \<Rightarrow> py_error + EquipmentCostBreakdown" where
  "calculate_equipment_cost self now equipment_type mk_model purchase_price year sev =
     (case equipment_defaults self equipment_type of
        None \<Rightarrow> Inl KeyError
      | Some defaults \<Rightarrow>
          (let price = effective_purchase_price defaults now purchase_price year;
               salvage_value = price * (salvage_percent defaults / 100)
           in bind_err (py_div (price - salvage_value) (real_of_int (life_hours defaults)))
                (\<lambda>depreciation.
              bind_err (py_div (((price + salvage_value) / 2) * interest_rate self)
                          (real_of_int (annual_hours self)))
                (\<lambda>interest.
              bind_err (py_div (price * 0.03) (real_of_int (annual_hours self)))
                (\<lambda>insurance.
                  (let total_ownership = depreciation + interest + insurance;
                       fuel = fuel_burn_gph defaults * fuel_price self;
                       lubrication = fuel * 0.15;
                       repairs = depreciation * (maintenance_factor defaults / 100)
                                   * severity_value sev;
                       wear_parts = depreciation * 0.20;
                       total_operating = fuel + lubrication + repairs + wear_parts;
                       total_cost = total_ownership + total_operating
                   in Inr \<lparr> equipment_id =
                              category_value equipment_type @ ''_'' @ strftime_stamp now,
                            category = equipment_type,
                            make_model = default_make_model defaults mk_model,
                            depreciation_per_hour = depreciation,
                            interest_per_hour = interest,
                            insurance_taxes_storage_per_hour = insurance,
                            total_ownership_per_hour = total_ownership,
                            fuel_per_hour = fuel,
                            lubrication_per_hour = lubrication,
                            repairs_maintenance_per_hour = repairs,
                            wear_parts_per_hour = wear_parts,
                            total_operating_per_hour = total_operating,
                            total_cost_per_hour = total_cost,
                            severity_factor = severity_value sev,
                            severity_adjusted_cost = total_cost \<rparr>))))))"

text \<open>
  \<open>calculate_small_tools_pool_cost\<close>. The crew configuration is a dictionary from names
  to counts, the result a dictionary from category names to costs with the total under
  the key \<open>Total Small Tools Pool\<close>.
\<close>

definition small_tool_category_cost :: "(string \<rightharpoonup> int) \<Rightarrow> SmallToolCategory \<Rightarrow> real" where
  "small_tool_category_cost crew_config tc =
     (if basis tc = ''per_unit'' \<and> crew_config ''chainsaws'' \<noteq> None
      then default_cost_per_hour tc * real_of_int (case_option 0 id (crew_config ''chainsaws''))
      else if basis tc = ''per_climber'' \<and> crew_config ''climbers'' \<noteq> None
      then default_cost_per_hour tc * real_of_int (case_option 0 id (crew_config ''climbers''))
      else if basis tc = ''per_crew'' \<and> crew_config ''crews'' \<noteq> None
      then default_cost_per_hour tc * real_of_int (case_option 0 id (crew_config ''crews''))
      else if basis tc = ''per_person''
      then default_cost_per_hour tc *
             real_of_int (case_option 0 id (crew_config ''climbers'') +
                          case_option 0 id (crew_config ''ground_crew''))
      else 0)"

fun small_tools_loop ::
  "(string \<rightharpoonup> int) \<Rightarrow> SmallToolCategory list \<Rightarrow> (string \<rightharpoonup> real) \<times> real \<Rightarrow>
   (string \<rightharpoonup> real) \<times> real" where
  "small_tools_loop crew_config [] acc = acc"
| "small_tools_loop crew_config (tc # tcs) (breakdown, acc_total) =
     (let category_cost = small_tool_category_cost crew_config tc
      in small_tools_loop crew_config tcs
           (breakdown(tool_name tc \<mapsto> category_cost), acc_total + category_cost))"

definition calculate_small_tools_pool_cost ::
  "EquipmentCostIntelligence \<Rightarrow> (string \<rightharpoonup> int) \<Rightarrow> (string \<rightharpoonup> real)" where
  "calculate_small_tools_pool_cost self crew_config =
     (let (breakdown, pool_total) =
            small_tools_loop crew_config (small_tools_defaults self) (Map.empty, 0)
      in breakdown(''Total Small Tools Pool'' \<mapsto> pool_total))"

text \<open>
  An entry of \<open>equipment_list\<close>: a dictionary read at the keys \<open>type\<close> (subscripted, so
  a missing key raises), \<open>make_model\<close>, \<open>purchase_price\<close> and \<open>year\<close> (read with
  \<open>get\<close>, so a missing key is \<open>None\<close>).
\<close>

record equipment_item =
  item_type :: "string option"
  item_make_model :: "string option"
  item_purchase_price :: "real option"
  item_year :: "int option"

record loadout_equipment_cost =
  equipment_details :: "EquipmentCostBreakdown list"
  heavy_total_cost_per_hour :: real
  category_breakdown :: "string \<rightharpoonup> real"
  small_tools_total_cost_per_hour :: real
  total_equipment_cost_per_hour :: real
  heavy_equipment_percentage :: real
  small_tools_percentage :: real
  crew_configuration :: "string \<rightharpoonup> int"
  summary_severity_factor :: real

text \<open>The loop of \<open>calculate_loadout_equipment_cost\<close> over the equipment list.\<close>

fun heavy_equipment_loop ::
  "EquipmentCostIntelligence \<Rightarrow> datetime \<Rightarrow> SeverityFactor \<Rightarrow> equipment_item list \<Rightarrow>
   EquipmentCostBreakdown list \<times> real \<Rightarrow> py_error + (EquipmentCostBreakdown list \<times> real)" where
  "heavy_equipment_loop self now sev [] acc = Inr acc"
| "heavy_equipment_loop self now sev (equipment # rest) (costs, acc_total) =
     (case item_type equipment of
        None \<Rightarrow> Inl KeyError
      | Some v \<Rightarrow>
          bind_err (EquipmentCategory_of v) (\<lambda>equipment_type.
          bind_err (calculate_equipment_cost self now equipment_type (item_make_model equipment)
                      (item_purchase_price equipment) (item_year equipment) sev)
            (\<lambda>cost_breakdown.
               heavy_equipment_loop self now sev rest
                 (costs @ [cost_breakdown], acc_total + total_cost_per_hour cost_breakdown))))"

definition calculate_loadout_equipment_cost ::
  "EquipmentCostIntelligence \<Rightarrow> datetime \<Rightarrow> equipment_item list \<Rightarrow> (string \<rightharpoonup> int) \<Rightarrow>
   SeverityFactor \<Rightarrow> py_error + loadout_equipment_cost" where
  "calculate_loadout_equipment_cost self now equipment_list crew_config sev =
     bind_err (heavy_equipment_loop self now sev equipment_list ([], 0))
       (\<lambda>(heavy_equipment_costs, total_heavy).
          (let small_tools_breakdown = calculate_small_tools_pool_cost self crew_config
           in case small_tools_breakdown ''Total Small Tools Pool'' of
                None \<Rightarrow> Inl KeyError
              | Some total_small_tools \<Rightarrow>
                  (let total_loadout = total_heavy + total_small_tools
                   in bind_err (py_div total_heavy total_loadout) (\<lambda>heavy_ratio.
                      bind_err (py_div total_small_tools total_loadout) (\<lambda>small_ratio.
                        Inr \<lparr> equipment_details = heavy_equipment_costs,
                              heavy_total_cost_per_hour = total_heavy,
                              category_breakdown = small_tools_breakdown,
                              small_tools_total_cost_per_hour = total_small_tools,
                              total_equipment_cost_per_hour = total_loadout,
                              heavy_equipment_percentage = heavy_ratio * 100,
                              small_tools_percentage = small_ratio * 100,
                              crew_configuration = crew_config,
                              summary_severity_factor = severity_value sev \<rparr>)))))"

section \<open>Employee cost model (true\_hourly\_employee\_cost.py)\<close>

datatype EmployeePosition =
    ISA_CERTIFIED_ARBORIST | EXPERIENCED_CLIMBER | GROUND_CREW_LEAD | GROUND_CREW_MEMBER
  | EQUIPMENT_OPERATOR | APPRENTICE | CREW_SUPERVISOR | SAFETY_MANAGER

fun position_value :: "EmployeePosition \<Rightarrow> string" where
  "position_value ISA_CERTIFIED_ARBORIST = ''isa_certified_arborist''"
| "position_value EXPERIENCED_CLIMBER = ''experienced_climber''"
| "position_value GROUND_CREW_LEAD = ''ground_crew_lead''"
| "position_value GROUND_CREW_MEMBER = ''ground_crew_member''"
| "position_value EQUIPMENT_OPERATOR = ''equipment_operator''"
| "position_value APPRENTICE = ''apprentice''"
| "position_value CREW_SUPERVISOR = ''crew_supervisor''"
| "position_value SAFETY_MANAGER = ''safety_manager''"

text \<open>\<open>EmployeePosition(value)\<close>: the member with that value, or \<open>ValueError\<close>.\<close>

definition EmployeePosition_of :: "string \<Rightarrow> py_error + EmployeePosition" where
  "EmployeePosition_of v =
     (if v = ''isa_certified_arborist'' then Inr ISA_CERTIFIED_ARBORIST
      else if v = ''experienced_climber'' then Inr EXPERIENCED_CLIMBER
      else if v = ''ground_crew_lead'' then Inr GROUND_CREW_LEAD
      else if v = ''ground_crew_member'' then Inr GROUND_CREW_MEMBER
      else if v = ''equipment_operator'' then Inr EQUIPMENT_OPERATOR
      else if v = ''apprentice'' then Inr APPRENTICE
      else if v = ''crew_supervisor'' then Inr CREW_SUPERVISOR
      else if v = ''safety_manager'' then Inr SAFETY_MANAGER
      else Inl ValueError)"

datatype LocationState = FLORIDA | GEORGIA | TEXAS | CALIFORNIA | NORTH_CAROLINA

fun state_value :: "LocationState \<Rightarrow> string" where
  "state_value FLORIDA = ''florida''"
| "state_value GEORGIA = ''georgia''"
| "state_value TEXAS = ''texas''"
| "state_value CALIFORNIA = ''california''"
| "state_value NORTH_CAROLINA = ''north_carolina''"

record EmployeeBurdenFactors =
  payroll_taxes_rate :: real
  federal_unemployment_rate :: real
  state_unemployment_rate :: real
  workers_comp_rate :: real
  health_insurance_annual :: real
  equipment_ppe_annual :: real
  vehicle_allocation_annual :: real
  training_certification_annual :: real
  overhead_allocation_rate :: real

text \<open>The field defaults of the dataclass: \<open>EmployeeBurdenFactors()\<close>.\<close>

definition EmployeeBurdenFactors_default :: EmployeeBurdenFactors where
  "EmployeeBurdenFactors_default =
     \<lparr> payroll_taxes_rate = 0.0765,
       federal_unemployment_rate = 0.006,
       state_unemployment_rate = 0.027,
       workers_comp_rate = 0.12,
       health_insurance_annual = 8000,
       equipment_ppe_annual = 3000,
       vehicle_allocation_annual = 5000,
       training_certification_annual = 2000,
       overhead_allocation_rate = 0.20 \<rparr>"

record NonProductiveTime =
  pto_sick_hours :: int
  training_hours :: int
  equipment_maintenance_downtime :: int
  weather_delay_hours :: int
  administrative_time :: int

definition NonProductiveTime_default :: NonProductiveTime where
  "NonProductiveTime_default =
     \<lparr> pto_sick_hours = 100,
       training_hours = 60,
       equipment_maintenance_downtime = 50,
       weather_delay_hours = 80,
       administrative_time = 100 \<rparr>"

definition total_non_productive_hours :: "NonProductiveTime \<Rightarrow> int" where
  "total_non_productive_hours t =
     pto_sick_hours t + training_hours t + equipment_maintenance_downtime t +
     weather_delay_hours t + administrative_time t"

record EmployeeCostBreakdown =
  employee_id :: string
  position :: EmployeePosition
  location_state :: LocationState
  hourly_rate :: real
  annual_base_wages :: real
  payroll_taxes :: real
  unemployment_taxes :: real
  workers_compensation :: real
  health_insurance :: real
  equipment_ppe :: real
  vehicle_allocation :: real
  training_certification :: real
  overhead_allocation :: real
  total_annual_burden :: real
  total_scheduled_hours :: int
  non_productive_hours :: int
  productive_hours :: int
  total_annual_cost :: real
  true_hourly_cost :: real
  burden_multiplier :: real
  productive_hour_percentage :: real
  cost_per_productive_hour :: real

text \<open>
  An entry of \<open>state_adjustments\<close>: a dictionary read with \<open>get\<close> at three keys, each
  with the unadjusted value as default.
\<close>

record state_adjustment =
  adj_workers_comp_rate :: "real option"
  adj_state_unemployment_rate :: "real option"
  adj_weather_delay_hours :: "int option"

text \<open>The attributes of a \<open>TrueHourlyEmployeeCostCalculator\<close> object.\<close>

record TrueHourlyEmployeeCostCalculator =
  default_burden_factors :: EmployeeBurdenFactors
  default_non_productive_time :: NonProductiveTime
  standard_annual_hours :: int
  position_base_rates :: "EmployeePosition \<rightharpoonup> real"
  state_adjustments :: "LocationState \<rightharpoonup> state_adjustment"

fun init_position_base_rates :: "EmployeePosition \<Rightarrow> real" where
  "init_position_base_rates ISA_CERTIFIED_ARBORIST = 32.0"
| "init_position_base_rates EXPERIENCED_CLIMBER = 28.0"
| "init_position_base_rates GROUND_CREW_LEAD = 22.0"
| "init_position_base_rates GROUND_CREW_MEMBER = 18.0"
| "init_position_base_rates EQUIPMENT_OPERATOR = 25.0"
| "init_position_base_rates APPRENTICE = 15.0"
| "init_position_base_rates CREW_SUPERVISOR = 35.0"
| "init_position_base_rates SAFETY_MANAGER = 40.0"

fun init_state_adjustments :: "LocationState \<Rightarrow> state_adjustment" where
  "init_state_adjustments FLORIDA =
     \<lparr> adj_workers_comp_rate = Some 0.12, adj_state_unemployment_rate = Some 0.027,
       adj_weather_delay_hours = Some 80 \<rparr>"
| "init_state_adjustments GEORGIA =
     \<lparr> adj_workers_comp_rate = Some 0.10, adj_state_unemployment_rate = Some 0.025,
       adj_weather_delay_hours = Some 60 \<rparr>"
| "init_state_adjustments TEXAS =
     \<lparr> adj_workers_comp_rate = Some 0.11, adj_state_unemployment_rate = Some 0.026,
       adj_weather_delay_hours = Some 40 \<rparr>"
| "init_state_adjustments CALIFORNIA =
     \<lparr> adj_workers_comp_rate = Some 0.15, adj_state_unemployment_rate = Some 0.034,
       adj_weather_delay_hours = Some 20 \<rparr>"
| "init_state_adjustments NORTH_CAROLINA =
     \<lparr> adj_workers_comp_rate = Some 0.09, adj_state_unemployment_rate = Some 0.024,
       adj_weather_delay_hours = Some 50 \<rparr>"

text \<open>\<open>TrueHourlyEmployeeCostCalculator.__init__\<close>.\<close>

definition TrueHourlyEmployeeCostCalculator_init :: TrueHourlyEmployeeCostCalculator where
  "TrueHourlyEmployeeCostCalculator_init =
     \<lparr> default_burden_factors = EmployeeBurdenFactors_default,
       default_non_productive_time = NonProductiveTime_default,
       standard_annual_hours = 2080,
       position_base_rates = (\<lambda>p. Some (init_position_base_rates p)),
       state_adjustments = (\<lambda>s. Some (init_state_adjustments s)) \<rparr>"

text \<open>
  The state-specific adjustment of \<open>calculate_true_hourly_cost\<close> (lines 167--190): with
  no entry for the state the factors are used as they are, otherwise they are copied with
  the entry's values put in.
\<close>

definition adjust_burden_factors ::
  "state_adjustment option \<Rightarrow> EmployeeBurdenFactors \<Rightarrow> EmployeeBurdenFactors" where
  "adjust_burden_factors adj bf =
     (case adj of
        None \<Rightarrow> bf
      | Some a \<Rightarrow>
          \<lparr> payroll_taxes_rate = payroll_taxes_rate bf,
            federal_unemployment_rate = federal_unemployment_rate bf,
            state_unemployment_rate =
              case_option (state_unemployment_rate bf) id (adj_state_unemployment_rate a),
            workers_comp_rate = case_option (workers_comp_rate bf) id (adj_workers_comp_rate a),
            health_insurance_annual = health_insurance_annual bf,
            equipment_ppe_annual = equipment_ppe_annual bf,
            vehicle_allocation_annual = vehicle_allocation_annual bf,
            training_certification_annual = training_certification_annual bf,
            overhead_allocation_rate = overhead_allocation_rate bf \<rparr>)"

definition adjust_non_productive_time ::
  "state_adjustment option \<Rightarrow> NonProductiveTime \<Rightarrow> NonProductiveTime" where
  "adjust_non_productive_time adj npt =
     (case adj of
        None \<Rightarrow> npt
      | Some a \<Rightarrow>
          \<lparr> pto_sick_hours = pto_sick_hours npt,
            training_hours = training_hours npt,
            equipment_maintenance_downtime = equipment_maintenance_downtime npt,
            weather_delay_hours =
              case_option (weather_delay_hours npt) id (adj_weather_delay_hours a),
            administrative_time = administrative_time npt \<rparr>)"

text \<open>\<open>calculate_true_hourly_cost\<close>.\<close>

definition calculate_true_hourly_cost ::
  "TrueHourlyEmployeeCostCalculator \<Rightarrow> datetime \<Rightarrow> EmployeePosition \<Rightarrow> LocationState \<Rightarrow>
   real option \<Rightarrow> EmployeeBurdenFactors option \<Rightarrow> NonProductiveTime option \<Rightarrow>
   py_error + EmployeeCostBreakdown" where
  "calculate_true_hourly_cost self now pos st rate_opt custom_burden_factors
       custom_non_productive_time =
     bind_err (case rate_opt of
                 Some r \<Rightarrow> Inr r
               | None \<Rightarrow> (case position_base_rates self pos of
                             None \<Rightarrow> Inl KeyError
                           | Some r \<Rightarrow> Inr r))
       (\<lambda>rate.
          (let burden_factors =
                 adjust_burden_factors (state_adjustments self st)
                   (case_option (default_burden_factors self) id custom_burden_factors);
               non_productive_time =
                 adjust_non_productive_time (state_adjustments self st)
                   (case_option (default_non_productive_time self) id custom_non_productive_time);
               wages = rate * real_of_int (standard_annual_hours self);
               p_taxes = wages * payroll_taxes_rate burden_factors;
               u_taxes = wages * (federal_unemployment_rate burden_factors +
                                  state_unemployment_rate burden_factors);
               w_comp = wages * workers_comp_rate burden_factors;
               h_ins = health_insurance_annual burden_factors;
               ppe = equipment_ppe_annual burden_factors;
               vehicle = vehicle_allocation_annual burden_factors;
               training = training_certification_annual burden_factors;
               overhead = wages * overhead_allocation_rate burden_factors;
               burden = p_taxes + u_taxes + w_comp + h_ins + ppe + vehicle + training + overhead;
               scheduled = standard_annual_hours self;
               non_productive = total_non_productive_hours non_productive_time;
               productive = scheduled - non_productive;
               annual_cost = wages + burden
           in bind_err (py_div annual_cost (real_of_int productive)) (\<lambda>true_cost.
              bind_err (py_div annual_cost wages) (\<lambda>multiplier.
              bind_err (py_div (real_of_int productive) (real_of_int scheduled)) (\<lambda>ratio.
                Inr \<lparr> employee_id =
                        position_value pos @ ''_'' @ state_value st @ ''_'' @ strftime_stamp now,
                      position = pos,
                      location_state = st,
                      hourly_rate = rate,
                      annual_base_wages = wages,
                      payroll_taxes = p_taxes,
                      unemployment_taxes = u_taxes,
                      workers_compensation = w_comp,
                      health_insurance = h_ins,
                      equipment_ppe = ppe,
                      vehicle_allocation = vehicle,
                      training_certification = training,
                      overhead_allocation = overhead,
                      total_annual_burden = burden,
                      total_scheduled_hours = scheduled,
                      non_productive_hours = non_productive,
                      productive_hours = productive,
                      total_annual_cost = annual_cost,
                      true_hourly_cost = true_cost,
                      burden_multiplier = multiplier,
                      productive_hour_percentage = ratio * 100,
                      cost_per_productive_hour = true_cost \<rparr>)))))"

text \<open>
  A member of \<open>crew_composition\<close>: a dictionary read at \<open>position\<close> (subscripted) and
  \<open>hourly_rate\<close> (with \<open>get\<close>).
\<close>

record crew_member =
  member_position :: "string option"
  member_hourly_rate :: "real option"

record crew_cost_summary =
  crew_members :: "EmployeeCostBreakdown list"
  total_base_hourly_rate :: real
  total_true_hourly_cost :: real
  total_burden_cost_per_hour :: real
  average_burden_multiplier :: real
  crew_size :: nat
  summary_location_state :: string

text \<open>
  The loop of \<open>calculate_crew_cost\<close>; the accumulator holds \<open>crew_members\<close>,
  \<open>total_hourly_rate\<close>, \<open>total_true_cost\<close> and \<open>total_burden_cost\<close>.
\<close>

fun crew_loop ::
  "TrueHourlyEmployeeCostCalculator \<Rightarrow> datetime \<Rightarrow> LocationState \<Rightarrow> crew_member list \<Rightarrow>
   EmployeeCostBreakdown list \<times> real \<times> real \<times> real \<Rightarrow>
   py_error + (EmployeeCostBreakdown list \<times> real \<times> real \<times> real)" where
  "crew_loop self now st [] acc = Inr acc"
| "crew_loop self now st (member # rest) (members, total_rate, total_true, total_burden) =
     (case member_position member of
        None \<Rightarrow> Inl KeyError
      | Some v \<Rightarrow>
          bind_err (EmployeePosition_of v) (\<lambda>pos.
          bind_err (calculate_true_hourly_cost self now pos st (member_hourly_rate member)
                      None None)
            (\<lambda>employee_cost.
               crew_loop self now st rest
                 (members @ [employee_cost],
                  total_rate + hourly_rate employee_cost,
                  total_true + true_hourly_cost employee_cost,
                  total_burden +
                    (true_hourly_cost employee_cost - hourly_rate employee_cost)))))"

definition calculate_crew_cost ::
  "TrueHourlyEmployeeCostCalculator \<Rightarrow> datetime \<Rightarrow> crew_member list \<Rightarrow> LocationState \<Rightarrow>
   py_error + crew_cost_summary" where
  "calculate_crew_cost self now crew_composition st =
     bind_err (crew_loop self now st crew_composition ([], 0, 0, 0))
       (\<lambda>(members, total_rate, total_true, total_burden).
          bind_err (py_div total_true total_rate) (\<lambda>avg_burden_multiplier.
            Inr \<lparr> crew_members = members,
                  total_base_hourly_rate = total_rate,
                  total_true_hourly_cost = total_true,
                  total_burden_cost_per_hour = total_burden,
                  average_burden_multiplier = avg_burden_multiplier,
                  crew_size = length crew_composition,
                  summary_location_state = state_value st \<rparr>))"

section \<open>Loadout pricing (loadout\_pricing\_intelligence.py)\<close>

datatype ProjectType =
    TREE_REMOVAL | TREE_TRIMMING | FORESTRY_MULCHING | STUMP_GRINDING
  | EMERGENCY_RESPONSE | LOT_CLEARING

fun project_type_value :: "ProjectType \<Rightarrow> string" where
  "project_type_value TREE_REMOVAL = ''tree_removal''"
| "project_type_value TREE_TRIMMING = ''tree_trimming''"
| "project_type_value FORESTRY_MULCHING = ''forestry_mulching''"
| "project_type_value STUMP_GRINDING = ''stump_grinding''"
| "project_type_value EMERGENCY_RESPONSE = ''emergency_response''"
| "project_type_value LOT_CLEARING = ''lot_clearing''"

record LoadoutConfiguration =
  cfg_name :: string
  project_type :: ProjectType
  equipment_list :: "equipment_item list"
  crew_composition :: "crew_member list"
  cfg_location_state :: LocationState
  cfg_severity_factor :: SeverityFactor

record LoadoutPricingBreakdown =
  loadout_id :: string
  configuration :: LoadoutConfiguration
  equipment_cost_per_hour :: real
  heavy_equipment_cost :: real
  small_tools_cost :: real
  employee_cost_per_hour :: real
  base_wages_per_hour :: real
  burden_cost_per_hour :: real
  lp_total_cost_per_hour :: real
  recommended_billing_rate :: real
  profit_margin_percentage :: real
  break_even_rate :: real
  competitive_rate_range :: "real \<times> real"
  cost_efficiency_score :: real
  profitability_score :: real

text \<open>
  The attributes of a \<open>LoadoutPricingIntelligence\<close> object that
  \<open>calculate_loadout_pricing\<close> reads.
\<close>

record LoadoutPricingIntelligence =
  equipment_engine :: EquipmentCostIntelligence
  employee_calculator :: TrueHourlyEmployeeCostCalculator
  target_profit_margins :: "ProjectType \<rightharpoonup> real"
  competitive_rates :: "ProjectType \<rightharpoonup> real \<times> real"

fun init_target_profit_margins :: "ProjectType \<Rightarrow> real" where
  "init_target_profit_margins TREE_REMOVAL = 0.35"
| "init_target_profit_margins TREE_TRIMMING = 0.40"
| "init_target_profit_margins FORESTRY_MULCHING = 0.30"
| "init_target_profit_margins STUMP_GRINDING = 0.35"
| "init_target_profit_margins EMERGENCY_RESPONSE = 0.50"
| "init_target_profit_margins LOT_CLEARING = 0.32"

fun init_competitive_rates :: "ProjectType \<Rightarrow> real \<times> real" where
  "init_competitive_rates TREE_REMOVAL = (200, 350)"
| "init_competitive_rates TREE_TRIMMING = (150, 280)"
| "init_competitive_rates FORESTRY_MULCHING = (400, 600)"
| "init_competitive_rates STUMP_GRINDING = (180, 320)"
| "init_competitive_rates EMERGENCY_RESPONSE = (300, 500)"
| "init_competitive_rates LOT_CLEARING = (350, 550)"

text \<open>\<open>LoadoutPricingIntelligence.__init__\<close>.\<close>

definition LoadoutPricingIntelligence_init :: LoadoutPricingIntelligence where
  "LoadoutPricingIntelligence_init =
     \<lparr> equipment_engine = EquipmentCostIntelligence_init,
       employee_calculator = TrueHourlyEmployeeCostCalculator_init,
       target_profit_margins = (\<lambda>t. Some (init_target_profit_margins t)),
       competitive_rates = (\<lambda>t. Some (init_competitive_rates t)) \<rparr>"

text \<open>
  \<open>_extract_crew_config\<close>: both counts subscript \<open>member["position"]\<close> of every member,
  so a member without that key raises.
\<close>

definition extract_crew_config :: "crew_member list \<Rightarrow> py_error + (string \<rightharpoonup> int)" where
  "extract_crew_config crew =
     (if None \<in> set (map member_position crew) then Inl KeyError
      else
        (let positions = map (\<lambda>m. case_option [] id (member_position m)) crew;
             climbers = int (length (filter
                          (\<lambda>p. p \<in> set [''isa_certified_arborist'', ''experienced_climber''])
                          positions));
             ground_crew = int (length (filter (\<lambda>p. str_contains p ''ground_crew'') positions));
             chainsaws = max 2 (climbers * 2 + max 1 (ground_crew div 2))
         in Inr [''climbers'' \<mapsto> climbers, ''ground_crew'' \<mapsto> ground_crew,
                 ''chainsaws'' \<mapsto> chainsaws, ''crews'' \<mapsto> 1]))"

text \<open>\<open>_calculate_cost_efficiency_score\<close>.\<close>

fun efficiency_benchmark :: "ProjectType \<Rightarrow> real \<times> real" where
  "efficiency_benchmark TREE_REMOVAL = (0.30, 0.70)"
| "efficiency_benchmark FORESTRY_MULCHING = (0.60, 0.40)"
| "efficiency_benchmark STUMP_GRINDING = (0.45, 0.55)"
| "efficiency_benchmark EMERGENCY_RESPONSE = (0.35, 0.65)"
| "efficiency_benchmark _ = (0.40, 0.60)"

definition calculate_cost_efficiency_score :: "real \<Rightarrow> real \<Rightarrow> ProjectType \<Rightarrow> py_error + real" where
  "calculate_cost_efficiency_score equipment_cost employee_cost pt =
     (let total_cost = equipment_cost + employee_cost
      in bind_err (py_div equipment_cost total_cost) (\<lambda>actual_equipment_ratio.
         bind_err (py_div employee_cost total_cost) (\<lambda>actual_employee_ratio.
           (let (equipment_ratio, employee_ratio) = efficiency_benchmark pt;
                equipment_variance = \<bar>actual_equipment_ratio - equipment_ratio\<bar>;
                employee_variance = \<bar>actual_employee_ratio - employee_ratio\<bar>
            in Inr (max 0 (100 - (equipment_variance + employee_variance) * 200))))))"

text \<open>\<open>_calculate_profitability_score\<close>.\<close>

definition calculate_profitability_score ::
  "real \<Rightarrow> real \<times> real \<Rightarrow> real \<Rightarrow> py_error + real" where
  "calculate_profitability_score recommended_rate competitive_range target_margin =
     (let (min_competitive, max_competitive) = competitive_range
      in bind_err
           (if min_competitive \<le> recommended_rate \<and> recommended_rate \<le> max_competitive
            then bind_err (py_div (recommended_rate - min_competitive)
                             (max_competitive - min_competitive))
                   (\<lambda>range_position. Inr (70 + range_position * 20))
            else if recommended_rate < min_competitive then Inr 50
            else bind_err (py_div (recommended_rate - max_competitive) max_competitive)
                   (\<lambda>excess_ratio. Inr (max 30 (70 - excess_ratio * 100))))
           (\<lambda>base_score.
              (let margin_bonus = min 10 (target_margin * 25)
               in Inr (min 100 (base_score + margin_bonus)))))"

text \<open>
  \<open>calculate_loadout_pricing\<close>. The coroutine awaits only
  \<open>calculate_loadout_equipment_cost\<close>, which awaits only \<open>calculate_equipment_cost\<close>, so
  the steps run in program order.
\<close>

definition calculate_loadout_pricing ::
  "LoadoutPricingIntelligence \<Rightarrow> datetime \<Rightarrow> LoadoutConfiguration \<Rightarrow>
   py_error + LoadoutPricingBreakdown" where
  "calculate_loadout_pricing self now loadout_config =
     bind_err (extract_crew_config (crew_composition loadout_config)) (\<lambda>crew_config.
     bind_err (calculate_loadout_equipment_cost (equipment_engine self) now
                 (equipment_list loadout_config) crew_config
                 (cfg_severity_factor loadout_config)) (\<lambda>equipment_cost_data.
     bind_err (calculate_crew_cost (employee_calculator self) now
                 (crew_composition loadout_config)
                 (cfg_location_state loadout_config)) (\<lambda>employee_cost_data.
       (let equipment_cost = total_equipment_cost_per_hour equipment_cost_data;
            employee_cost = total_true_hourly_cost employee_cost_data;
            total_cost = equipment_cost + employee_cost
        in case target_profit_margins self (project_type loadout_config) of
             None \<Rightarrow> Inl KeyError
           | Some target_margin \<Rightarrow>
               bind_err (py_div total_cost (1 - target_margin)) (\<lambda>recommended.
                 (case competitive_rates self (project_type loadout_config) of
                    None \<Rightarrow> Inl KeyError
                  | Some competitive_range \<Rightarrow>
                      bind_err (calculate_cost_efficiency_score equipment_cost employee_cost
                                  (project_type loadout_config)) (\<lambda>efficiency.
                      bind_err (calculate_profitability_score recommended competitive_range
                                  target_margin) (\<lambda>profitability.
                        Inr \<lparr> loadout_id =
                                project_type_value (project_type loadout_config) @ ''_'' @
                                state_value (cfg_location_state loadout_config) @ ''_'' @
                                strftime_stamp now,
                              configuration = loadout_config,
                              equipment_cost_per_hour = equipment_cost,
                              heavy_equipment_cost = heavy_total_cost_per_hour equipment_cost_data,
                              small_tools_cost =
                                small_tools_total_cost_per_hour equipment_cost_data,
                              employee_cost_per_hour = employee_cost,
                              base_wages_per_hour = total_base_hourly_rate employee_cost_data,
                              burden_cost_per_hour =
                                total_burden_cost_per_hour employee_cost_data,
                              lp_total_cost_per_hour = total_cost,
                              recommended_billing_rate = recommended,
                              profit_margin_percentage = target_margin * 100,
                              break_even_rate = total_cost,
                              competitive_rate_range = competitive_range,
                              cost_efficiency_score = efficiency,
                              profitability_score = profitability \<rparr>))))))))"

text \<open>
  The template \<open>residential_tree_service\<close> of \<open>_initialize_loadout_templates\<close>.
\<close>

definition residential_tree_service :: LoadoutConfiguration where
  "residential_tree_service =
     \<lparr> cfg_name = ''Residential Tree Service Crew'',
       project_type = TREE_REMOVAL,
       equipment_list =
         [\<lparr> item_type = Some ''bucket_truck'', item_make_model = Some ''Altec on Ford F750'',
            item_purchase_price = Some 165000, item_year = Some 2021 \<rparr>,
          \<lparr> item_type = Some ''chipper'', item_make_model = Some ''Bandit 150XP'',
            item_purchase_price = Some 50000, item_year = Some 2020 \<rparr>,
          \<lparr> item_type = Some ''pickup_truck'', item_make_model = Some ''Ford F-350'',
            item_purchase_price = Some 65000, item_year = Some 2023 \<rparr>],
       crew_composition =
         [\<lparr> member_position = Some ''isa_certified_arborist'', member_hourly_rate = Some 32.0 \<rparr>,
          \<lparr> member_position = Some ''experienced_climber'', member_hourly_rate = Some 28.0 \<rparr>,
          \<lparr> member_position = Some ''ground_crew_lead'', member_hourly_rate = Some 22.0 \<rparr>,
          \<lparr> member_position = Some ''ground_crew_member'', member_hourly_rate = Some 18.0 \<rparr>],
       cfg_location_state = FLORIDA,
       cfg_severity_factor = STANDARD_WORK \<rparr>"

section \<open>Inputs of the scenarios\<close>

text \<open>The domain scores of the specification's first scenario.\<close>

definition afiss_example :: domain_scores where
  "afiss_example =
     \<lparr> access = 15, fall_zone = 35, interference = 25, severity = 20, site_conditions = 8 \<rparr>"

text \<open>Three clock readings: one second apart, and a year apart.\<close>

definition clock_a :: datetime where
  "clock_a = \<lparr> dt_year = 2026, dt_month = 11, dt_day = 3,
               dt_hour = 9, dt_minute = 30, dt_second = 0 \<rparr>"

definition clock_b :: datetime where
  "clock_b = \<lparr> dt_year = 2026, dt_month = 11, dt_day = 3,
               dt_hour = 9, dt_minute = 30, dt_second = 1 \<rparr>"

definition clock_c :: datetime where
  "clock_c = \<lparr> dt_year = 2027, dt_month = 11, dt_day = 3,
               dt_hour = 9, dt_minute = 30, dt_second = 0 \<rparr>"

text \<open>A one-person loadout without heavy equipment, at a given hourly rate.\<close>

definition apprentice_loadout :: "real \<Rightarrow> LoadoutConfiguration" where
  "apprentice_loadout rate =
     \<lparr> cfg_name = ''Apprentice'',
       project_type = TREE_TRIMMING,
       equipment_list = [],
       crew_composition =
         [\<lparr> member_position = Some ''apprentice'', member_hourly_rate = Some rate \<rparr>],
       cfg_location_state = FLORIDA,
       cfg_severity_factor = STANDARD_WORK \<rparr>"

text \<open>The pricing object with every target margin set to one value.\<close>

definition with_target_margin :: "real \<Rightarrow> LoadoutPricingIntelligence" where
  "with_target_margin m =
     LoadoutPricingIntelligence_init \<lparr> target_profit_margins := (\<lambda>t. Some m) \<rparr>"

section \<open>Unfolding rules\<close>

lemma bind_err_simps:
  "bind_err (Inl e) f = Inl e" "bind_err (Inr v) f = f v"
  by (simp_all add: bind_err_def)

lemmas employee_defs =
  calculate_true_hourly_cost_def TrueHourlyEmployeeCostCalculator_init_def
  bind_err_def py_div_def Let_def adjust_burden_factors_def adjust_non_productive_time_def
  EmployeeBurdenFactors_default_def NonProductiveTime_default_def
  total_non_productive_hours_def

lemmas equipment_defs =
  calculate_equipment_cost_def EquipmentCostIntelligence_init_def bind_err_def py_div_def
  Let_def effective_purchase_price_def default_make_model_def

section \<open>AFISS scoring: properties\<close>

lemma foldl_weighted_scores:
  "foldl (+) 0 (weighted_scores ds) = parse_assessment_composite ds"
  by (simp add: weighted_scores_def parse_assessment_composite_def)

lemma assess_project_eq: "assess_project ds = parse_assessment_response ds"
  by (simp add: assess_project_def parse_assessment_response_def foldl_weighted_scores)

lemma parse_assessment_response_fields:
  "composite_score (parse_assessment_response ds) = parse_assessment_composite ds"
  "complexity (parse_assessment_response ds) =
     fst (determine_complexity (parse_assessment_composite ds))"
  "multiplier_range (parse_assessment_response ds) =
     snd (determine_complexity (parse_assessment_composite ds))"
  by (simp_all add: parse_assessment_response_def Let_def split: prod.splits)

lemma parse_assessment_composite_bounds:
  assumes "0 \<le> access ds" "access ds \<le> 100" "0 \<le> fall_zone ds" "fall_zone ds \<le> 100"
    "0 \<le> interference ds" "interference ds \<le> 100" "0 \<le> severity ds" "severity ds \<le> 100"
    "0 \<le> site_conditions ds" "site_conditions ds \<le> 100"
  shows "0 \<le> parse_assessment_composite ds" "parse_assessment_composite ds \<le> 100"
  using assms by (simp_all add: parse_assessment_composite_def)

lemma afiss_example_composite: "parse_assessment_composite afiss_example = 23.15"
  by (simp add: parse_assessment_composite_def afiss_example_def)

text \<open>
  Claim C1. For domain scores in the range 0 to 100 the composite score of both scoring
  paths is the weighted sum with the weights 0.20, 0.25, 0.20, 0.30 and 0.05 and lies
  between 0 and 100; for the scores 15, 35, 25, 20 and 8 it is 23.15, the tier is low and
  the multiplier range is (1.12, 1.28).
\<close>

theorem afiss_composite_weighted_sum:
  "(0 \<le> access ds \<and> access ds \<le> 100 \<and> 0 \<le> fall_zone ds \<and> fall_zone ds \<le> 100 \<and>
    0 \<le> interference ds \<and> interference ds \<le> 100 \<and> 0 \<le> severity ds \<and> severity ds \<le> 100 \<and>
    0 \<le> site_conditions ds \<and> site_conditions ds \<le> 100 \<longrightarrow>
      composite_score (parse_assessment_response ds) =
        access ds * 0.20 + fall_zone ds * 0.25 + interference ds * 0.20 +
        severity ds * 0.30 + site_conditions ds * 0.05 \<and>
      composite_score (assess_project ds) = composite_score (parse_assessment_response ds) \<and>
      0 \<le> composite_score (parse_assessment_response ds) \<and>
      composite_score (parse_assessment_response ds) \<le> 100) \<and>
   composite_score (parse_assessment_response afiss_example) = 23.15 \<and>
   complexity (parse_assessment_response afiss_example) = LOW \<and>
   multiplier_range (parse_assessment_response afiss_example) = (1.12, 1.28) \<and>
   composite_score (assess_project afiss_example) = 23.15 \<and>
   complexity (assess_project afiss_example) = LOW \<and>
   multiplier_range (assess_project afiss_example) = (1.12, 1.28)"
proof -
  have tier: "determine_complexity 23.15 = (LOW, (1.12, 1.28))"
    by (simp add: determine_complexity_def)
  have example:
    "composite_score (parse_assessment_response afiss_example) = 23.15"
    "complexity (parse_assessment_response afiss_example) = LOW"
    "multiplier_range (parse_assessment_response afiss_example) = (1.12, 1.28)"
    by (simp_all only: parse_assessment_response_fields afiss_example_composite tier
        fst_conv snd_conv)
  have general:
    "composite_score (parse_assessment_response ds) =
       access ds * 0.20 + fall_zone ds * 0.25 + interference ds * 0.20 +
       severity ds * 0.30 + site_conditions ds * 0.05"
    by (simp add: parse_assessment_response_fields parse_assessment_composite_def)
  show ?thesis
    using parse_assessment_composite_bounds [of ds] example
    by (simp only: assess_project_eq general [symmetric] parse_assessment_response_fields(1))
      simp
qed

text \<open>The scenario's scores satisfy the range hypothesis of C1.\<close>

theorem afiss_composite_weighted_sum_witness:
  "0 \<le> access afiss_example \<and> access afiss_example \<le> 100 \<and>
   0 \<le> fall_zone afiss_example \<and> fall_zone afiss_example \<le> 100 \<and>
   0 \<le> interference afiss_example \<and> interference afiss_example \<le> 100 \<and>
   0 \<le> severity afiss_example \<and> severity afiss_example \<le> 100 \<and>
   0 \<le> site_conditions afiss_example \<and> site_conditions afiss_example \<le> 100 \<and>
   composite_score (parse_assessment_response afiss_example) =
     15 * 0.20 + 35 * 0.25 + 25 * 0.20 + 20 * 0.30 + 8 * 0.05 \<and>
   composite_score (assess_project afiss_example) = 23.15 \<and>
   0 \<le> composite_score (parse_assessment_response afiss_example) \<and>
   composite_score (parse_assessment_response afiss_example) \<le> 100"
  using afiss_composite_weighted_sum [of afiss_example]
  by (simp add: afiss_example_def)

text \<open>
  Claim C2. The tier is low up to and including 28, moderate up to and including 46, high
  up to and including 58 and extreme above, each with its multiplier range; a score on a
  breakpoint is in the lower tier, and a larger score never has a lower tier.
\<close>

theorem determine_complexity_breakpoints:
  "(cs \<le> 28 \<longrightarrow> determine_complexity cs = (LOW, (1.12, 1.28))) \<and>
   (28 < cs \<and> cs \<le> 46 \<longrightarrow> determine_complexity cs = (MODERATE, (1.45, 1.85))) \<and>
   (46 < cs \<and> cs \<le> 58 \<longrightarrow> determine_complexity cs = (HIGH, (2.1, 2.8))) \<and>
   (58 < cs \<longrightarrow> determine_complexity cs = (EXTREME, (2.5, 3.5))) \<and>
   determine_complexity 28 = (LOW, (1.12, 1.28)) \<and>
   determine_complexity 28.01 = (MODERATE, (1.45, 1.85)) \<and>
   determine_complexity 46 = (MODERATE, (1.45, 1.85)) \<and>
   determine_complexity 58 = (HIGH, (2.1, 2.8)) \<and>
   (cs \<le> cs' \<longrightarrow>
      complexity_rank (fst (determine_complexity cs)) \<le>
      complexity_rank (fst (determine_complexity cs')))"
  by (simp add: determine_complexity_def)

text \<open>One score in each tier, and a pair of scores in increasing order.\<close>

theorem determine_complexity_breakpoints_witness:
  "determine_complexity 10 = (LOW, (1.12, 1.28)) \<and>
   determine_complexity 30 = (MODERATE, (1.45, 1.85)) \<and>
   determine_complexity 50 = (HIGH, (2.1, 2.8)) \<and>
   determine_complexity 70 = (EXTREME, (2.5, 3.5)) \<and>
   (10::real) \<le> 70 \<and>
   complexity_rank (fst (determine_complexity 10)) \<le>
   complexity_rank (fst (determine_complexity 70))"
  using determine_complexity_breakpoints [of 10 70]
    determine_complexity_breakpoints [of 30 30]
    determine_complexity_breakpoints [of 50 50]
    determine_complexity_breakpoints [of 70 70]
  by simp

section \<open>TreeScore: properties\<close>

text \<open>
  Claim C5. For positive height, canopy radius and DBH the removal TreeScore of both
  implementations is height times twice the canopy radius times a twelfth of the DBH; for
  80, 30 and 36 it is 14400.
\<close>

theorem treescore_removal_formula:
  "(0 < height \<and> 0 < canopy_radius \<and> 0 < dbh \<longrightarrow>
      calculate_treescore height canopy_radius dbh ''removal'' =
        height * (canopy_radius * 2) * (dbh / 12) \<and>
      extract_treescore response height canopy_radius dbh ''removal'' =
        height * (canopy_radius * 2) * (dbh / 12)) \<and>
   calculate_treescore 80 30 36 ''removal'' = 14400 \<and>
   extract_treescore response 80 30 36 ''removal'' = 14400"
  by (simp add: calculate_treescore_def extract_treescore_def)

text \<open>The scenario's dimensions are positive.\<close>

theorem treescore_removal_formula_witness:
  "(0::real) < 80 \<and> (0::real) < 30 \<and> (0::real) < 36 \<and>
   calculate_treescore 80 30 36 ''removal'' = 80 * (30 * 2) * (36 / 12) \<and>
   extract_treescore [] 80 30 36 ''removal'' = 80 * (30 * 2) * (36 / 12)"
  using treescore_removal_formula [of 80 30 36 "[]"]
  by simp

text \<open>
  Claim C8 says that base points are never negative and that a height or DBH of zero or
  less is rejected. Neither implementation checks its input: for a height of -10 both
  return the number -100.
\<close>

theorem treescore_negative_height_counterexample:
  "calculate_treescore (- 10) 5 12 ''removal'' = - 100 \<and>
   extract_treescore [] (- 10) 5 12 ''removal'' = - 100 \<and>
   \<not> 0 \<le> calculate_treescore (- 10) 5 12 ''removal''"
  by (simp add: calculate_treescore_def extract_treescore_def)

text \<open>
  Claim C8, amended. Both implementations are total functions without a failure path, and
  the base points are not negative when height, canopy radius and DBH are not negative.
\<close>

theorem treescore_nonnegative_dimensions:
  "0 \<le> height \<Longrightarrow> 0 \<le> canopy_radius \<Longrightarrow> 0 \<le> dbh \<Longrightarrow>
   0 \<le> calculate_treescore height canopy_radius dbh service_type \<and>
   0 \<le> extract_treescore response height canopy_radius dbh service_type"
  by (simp add: calculate_treescore_def extract_treescore_def)

text \<open>Non-negative dimensions for the stump grinding formula.\<close>

theorem treescore_nonnegative_dimensions_witness:
  "(0::real) \<le> 80 \<and> (0::real) \<le> 30 \<and> (0::real) \<le> 36 \<and>
   0 \<le> calculate_treescore 80 30 36 ''stump_grinding'' \<and>
   0 \<le> extract_treescore [] 80 30 36 ''stump_grinding''"
  using treescore_nonnegative_dimensions [of 80 30 36 "''stump_grinding''" "[]"]
  by simp

section \<open>Equipment cost model: properties\<close>

lemma calculate_equipment_cost_total:
  assumes "calculate_equipment_cost self now equipment_type mk_model purchase_price year sev = Inr b"
  shows "total_cost_per_hour b =
           depreciation_per_hour b + interest_per_hour b + insurance_taxes_storage_per_hour b +
           fuel_per_hour b + lubrication_per_hour b + repairs_maintenance_per_hour b +
           wear_parts_per_hour b"
  using assms unfolding calculate_equipment_cost_def bind_err_def py_div_def
  by (auto split: option.splits if_splits simp: Let_def algebra_simps)

lemma init_equipment_cost_returns:
  "\<exists>b. calculate_equipment_cost EquipmentCostIntelligence_init now equipment_type mk_model
          purchase_price year sev = Inr b"
  by (cases equipment_type)
    (simp_all add: calculate_equipment_cost_def EquipmentCostIntelligence_init_def bind_err_def
      py_div_def Let_def)

lemma bucket_truck_defaults:
  "\<exists>b. calculate_equipment_cost EquipmentCostIntelligence_init now BUCKET_TRUCK mk_model
          None None sev = Inr b \<and> depreciation_per_hour b = 11.55 \<and> fuel_per_hour b = 27.625"
  by (simp add: calculate_equipment_cost_def EquipmentCostIntelligence_init_def bind_err_def
      py_div_def Let_def effective_purchase_price_def)

text \<open>
  Claim C7. The total cost per hour of an equipment cost breakdown is the sum of its seven
  components: depreciation, interest, insurance/taxes/storage, fuel, lubrication,
  repairs/maintenance and wear parts. With the default tables the calculation returns a
  breakdown for every category, and for a bucket truck priced at its default MSRP the
  depreciation is 11.55 and the fuel cost 27.625 per hour.
\<close>

theorem equipment_total_is_sum_of_components:
  "(calculate_equipment_cost self now equipment_type mk_model purchase_price year sev = Inr b \<longrightarrow>
      total_cost_per_hour b =
        depreciation_per_hour b + interest_per_hour b + insurance_taxes_storage_per_hour b +
        fuel_per_hour b + lubrication_per_hour b + repairs_maintenance_per_hour b +
        wear_parts_per_hour b) \<and>
   (\<exists>b'. calculate_equipment_cost EquipmentCostIntelligence_init now equipment_type mk_model
            purchase_price year sev = Inr b' \<and>
          total_cost_per_hour b' =
            depreciation_per_hour b' + interest_per_hour b' +
            insurance_taxes_storage_per_hour b' + fuel_per_hour b' + lubrication_per_hour b' +
            repairs_maintenance_per_hour b' + wear_parts_per_hour b') \<and>
   (\<exists>b'. calculate_equipment_cost EquipmentCostIntelligence_init now BUCKET_TRUCK mk_model
            None None sev = Inr b' \<and>
          depreciation_per_hour b' = 11.55 \<and> fuel_per_hour b' = 27.625)"
  using calculate_equipment_cost_total init_equipment_cost_returns bucket_truck_defaults
  by metis

text \<open>The bucket truck at its defaults: the seven components and their sum.\<close>

theorem equipment_total_is_sum_of_components_witness:
  "\<not> isl (calculate_equipment_cost EquipmentCostIntelligence_init clock_a BUCKET_TRUCK
            None None None STANDARD_WORK) \<and>
   total_cost_per_hour (projr (calculate_equipment_cost EquipmentCostIntelligence_init clock_a
     BUCKET_TRUCK None None None STANDARD_WORK)) = 62.73925 \<and>
   11.55 + 5.3625 + 4.125 + 27.625 + 4.14375 + 7.623 + 2.31 = (62.73925 :: real)"
proof -
  define r where "r = calculate_equipment_cost EquipmentCostIntelligence_init clock_a
     BUCKET_TRUCK None None None STANDARD_WORK"
  have fields: "\<not> isl r" "depreciation_per_hour (projr r) = 11.55"
    "interest_per_hour (projr r) = 5.3625"
    "insurance_taxes_storage_per_hour (projr r) = 4.125"
    "fuel_per_hour (projr r) = 27.625" "lubrication_per_hour (projr r) = 4.14375"
    "repairs_maintenance_per_hour (projr r) = 7.623" "wear_parts_per_hour (projr r) = 2.31"
    by (simp_all add: r_def calculate_equipment_cost_def EquipmentCostIntelligence_init_def
        bind_err_def py_div_def Let_def effective_purchase_price_def)
  then have "r = Inr (projr r)" by simp
  from equipment_total_is_sum_of_components [of EquipmentCostIntelligence_init clock_a
      BUCKET_TRUCK None None None STANDARD_WORK "projr r"] this
  have "total_cost_per_hour (projr r) = 11.55 + 5.3625 + 4.125 + 27.625 + 4.14375 + 7.623 + 2.31"
    unfolding r_def [symmetric] fields by blast
  then show ?thesis using fields(1) unfolding r_def by simp
qed

section \<open>Employee cost model: properties\<close>

lemma init_true_hourly_cost_positive_rate:
  assumes "0 < rate"
  shows "\<exists>b. calculate_true_hourly_cost TrueHourlyEmployeeCostCalculator_init now pos st
               (Some rate) None None = Inr b \<and> hourly_rate b = rate \<and> rate < true_hourly_cost b"
  using assms
  by (cases st) (simp_all add: employee_defs field_simps)

lemma init_true_hourly_cost_default_rate:
  "calculate_true_hourly_cost TrueHourlyEmployeeCostCalculator_init now pos st None None None =
   calculate_true_hourly_cost TrueHourlyEmployeeCostCalculator_init now pos st
     (Some (init_position_base_rates pos)) None None"
  unfolding calculate_true_hourly_cost_def
  by (simp only: TrueHourlyEmployeeCostCalculator_init_def
      TrueHourlyEmployeeCostCalculator.simps option.case)

lemma init_position_base_rates_positive: "0 < init_position_base_rates pos"
  by (cases pos) simp_all

text \<open>
  Claim C6 says that the true hourly cost exceeds the hourly rate for every non-negative
  rate. At the rate 0 the annual base wages are 0 and the burden multiplier, the total
  annual cost divided by the annual base wages, divides by zero: no breakdown is returned.
\<close>

theorem true_hourly_cost_zero_rate_counterexample:
  "calculate_true_hourly_cost TrueHourlyEmployeeCostCalculator_init clock_a
     ISA_CERTIFIED_ARBORIST FLORIDA (Some 0) None None = Inl ZeroDivisionError"
  by (simp add: calculate_true_hourly_cost_def TrueHourlyEmployeeCostCalculator_init_def
      bind_err_def py_div_def Let_def adjust_burden_factors_def adjust_non_productive_time_def
      EmployeeBurdenFactors_default_def NonProductiveTime_default_def
      total_non_productive_hours_def)

text \<open>
  Claim C6, amended. For every position and state and every positive hourly rate, and for
  the position's default rate when none is given, the calculation returns a breakdown
  whose true hourly cost is strictly greater than its hourly rate.
\<close>

theorem true_hourly_cost_exceeds_positive_rate:
  "(0 < rate \<longrightarrow>
      (\<exists>b. calculate_true_hourly_cost TrueHourlyEmployeeCostCalculator_init now pos st
              (Some rate) None None = Inr b \<and>
            hourly_rate b = rate \<and> rate < true_hourly_cost b)) \<and>
   (\<exists>b. calculate_true_hourly_cost TrueHourlyEmployeeCostCalculator_init now pos st
           None None None = Inr b \<and>
         hourly_rate b = init_position_base_rates pos \<and> hourly_rate b < true_hourly_cost b)"
proof (intro conjI impI)
  assume "0 < rate"
  then show "\<exists>b. calculate_true_hourly_cost TrueHourlyEmployeeCostCalculator_init now pos st
              (Some rate) None None = Inr b \<and> hourly_rate b = rate \<and> rate < true_hourly_cost b"
    by (rule init_true_hourly_cost_positive_rate)
next
  from init_true_hourly_cost_positive_rate [where rate = "init_position_base_rates pos" and now = now
      and pos = pos and st = st, OF init_position_base_rates_positive]
  show "\<exists>b. calculate_true_hourly_cost TrueHourlyEmployeeCostCalculator_init now pos st
           None None None = Inr b \<and>
         hourly_rate b = init_position_base_rates pos \<and> hourly_rate b < true_hourly_cost b"
    unfolding init_true_hourly_cost_default_rate by auto
qed

text \<open>A certified arborist in Florida at 32 an hour.\<close>

theorem true_hourly_cost_exceeds_positive_rate_witness:
  "(0::real) < 32 \<and>
   \<not> isl (calculate_true_hourly_cost TrueHourlyEmployeeCostCalculator_init clock_a
            ISA_CERTIFIED_ARBORIST FLORIDA (Some 32) None None) \<and>
   hourly_rate (projr (calculate_true_hourly_cost TrueHourlyEmployeeCostCalculator_init clock_a
     ISA_CERTIFIED_ARBORIST FLORIDA (Some 32) None None)) = 32 \<and>
   32 < true_hourly_cost (projr (calculate_true_hourly_cost
     TrueHourlyEmployeeCostCalculator_init clock_a ISA_CERTIFIED_ARBORIST FLORIDA (Some 32)
     None None))"
  using true_hourly_cost_exceeds_positive_rate [of 32 clock_a ISA_CERTIFIED_ARBORIST FLORIDA]
  by auto

section \<open>Crew cost: the average burden multiplier\<close>

lemma crew_cost_empty: "calculate_crew_cost self now [] st = Inl ZeroDivisionError"
  by (simp add: calculate_crew_cost_def bind_err_def py_div_def)

lemma extract_crew_config_empty:
  "extract_crew_config [] =
     Inr [''climbers'' \<mapsto> 0, ''ground_crew'' \<mapsto> 0, ''chainsaws'' \<mapsto> 2, ''crews'' \<mapsto> 1]"
  by (simp add: extract_crew_config_def)

lemma loadout_pricing_empty_crew:
  assumes "crew_composition cfg = []"
  shows "isl (calculate_loadout_pricing lp now cfg)"
    and "extract_crew_config [] = Inr cc \<Longrightarrow>
         calculate_loadout_equipment_cost (equipment_engine lp) now (equipment_list cfg) cc
           (cfg_severity_factor cfg) = Inr e \<Longrightarrow>
         calculate_loadout_pricing lp now cfg = Inl ZeroDivisionError"
proof -
  let ?cc = "[''climbers'' \<mapsto> 0, ''ground_crew'' \<mapsto> 0, ''chainsaws'' \<mapsto> 2, ''crews'' \<mapsto> (1::int)]"
  let ?eq = "calculate_loadout_equipment_cost (equipment_engine lp) now (equipment_list cfg) ?cc
           (cfg_severity_factor cfg)"
  have unfold: "calculate_loadout_pricing lp now cfg =
      bind_err ?eq (\<lambda>equipment_cost_data. Inl ZeroDivisionError)"
    unfolding calculate_loadout_pricing_def assms extract_crew_config_empty crew_cost_empty
    by (simp only: bind_err_simps)
  show "isl (calculate_loadout_pricing lp now cfg)"
    unfolding unfold by (cases ?eq) (simp_all only: bind_err_simps sum.disc)
  show "calculate_loadout_pricing lp now cfg = Inl ZeroDivisionError"
    if "extract_crew_config [] = Inr cc"
      "calculate_loadout_equipment_cost (equipment_engine lp) now (equipment_list cfg) cc
           (cfg_severity_factor cfg) = Inr e"
  proof -
    from that(1) have "cc = ?cc" unfolding extract_crew_config_empty by simp
    with that(2) show ?thesis unfolding unfold by (simp only: bind_err_simps)
  qed
qed

lemma crew_cost_division_defined:
  assumes "crew_loop self now st crew ([], 0, 0, 0) = Inr (members, total_rate, total_true, total_burden)"
    and "total_rate \<noteq> 0"
  shows "\<exists>s. calculate_crew_cost self now crew st = Inr s \<and>
             average_burden_multiplier s = total_true / total_rate \<and>
             total_base_hourly_rate s = total_rate \<and> total_true_hourly_cost s = total_true"
  using assms by (simp add: calculate_crew_cost_def bind_err_def py_div_def)

text \<open>
  Claim C10. For an empty crew \<open>calculate_crew_cost\<close> divides the total true cost 0 by
  the total base rate 0 and raises; \<open>calculate_loadout_pricing\<close> with an empty crew never
  returns a result, and raises that error whenever its equipment step succeeds. For a
  non-empty crew whose loop ends with a positive total base rate the division is defined
  and gives the average burden multiplier.
\<close>

theorem crew_cost_empty_crew_division_by_zero:
  "calculate_crew_cost self now [] st = Inl ZeroDivisionError \<and>
   (crew_composition cfg = [] \<longrightarrow> isl (calculate_loadout_pricing lp now cfg)) \<and>
   (crew_composition cfg = [] \<and> extract_crew_config [] = Inr cc \<and>
    calculate_loadout_equipment_cost (equipment_engine lp) now (equipment_list cfg) cc
      (cfg_severity_factor cfg) = Inr e \<longrightarrow>
      calculate_loadout_pricing lp now cfg = Inl ZeroDivisionError) \<and>
   (crew \<noteq> [] \<and>
    crew_loop self now st crew ([], 0, 0, 0) = Inr (members, total_rate, total_true, total_burden) \<and>
    0 < total_rate \<longrightarrow>
      (\<exists>s. calculate_crew_cost self now crew st = Inr s \<and>
           average_burden_multiplier s = total_true / total_rate))"
proof (intro conjI impI)
  show "calculate_crew_cost self now [] st = Inl ZeroDivisionError"
    by (rule crew_cost_empty)
next
  assume "crew_composition cfg = []"
  then show "isl (calculate_loadout_pricing lp now cfg)"
    by (rule loadout_pricing_empty_crew(1))
next
  assume "crew_composition cfg = [] \<and> extract_crew_config [] = Inr cc \<and>
    calculate_loadout_equipment_cost (equipment_engine lp) now (equipment_list cfg) cc
      (cfg_severity_factor cfg) = Inr e"
  then show "calculate_loadout_pricing lp now cfg = Inl ZeroDivisionError"
    using loadout_pricing_empty_crew(2) by blast
next
  assume "crew \<noteq> [] \<and>
    crew_loop self now st crew ([], 0, 0, 0) = Inr (members, total_rate, total_true, total_burden) \<and>
    0 < total_rate"
  then have "crew_loop self now st crew ([], 0, 0, 0) =
      Inr (members, total_rate, total_true, total_burden)" "total_rate \<noteq> 0"
    by simp_all
  from crew_cost_division_defined [OF this]
  show "\<exists>s. calculate_crew_cost self now crew st = Inr s \<and>
           average_burden_multiplier s = total_true / total_rate"
    by blast
qed

lemma empty_crew_equipment_cost:
  "\<not> isl (calculate_loadout_equipment_cost EquipmentCostIntelligence_init clock_a
            (equipment_list residential_tree_service)
            [''climbers'' \<mapsto> 0, ''ground_crew'' \<mapsto> 0, ''chainsaws'' \<mapsto> 2, ''crews'' \<mapsto> 1]
            STANDARD_WORK)"
  by (simp add: calculate_loadout_equipment_cost_def residential_tree_service_def
      EquipmentCategory_of_def equipment_defs calculate_small_tools_pool_cost_def
      load_small_tools_defaults_def small_tool_category_cost_def)

lemma apprentice_crew_loop:
  "crew_loop TrueHourlyEmployeeCostCalculator_init clock_a FLORIDA
     [\<lparr> member_position = Some ''apprentice'', member_hourly_rate = Some 15 \<rparr>] ([], 0, 0, 0) =
   Inr ([projr (calculate_true_hourly_cost TrueHourlyEmployeeCostCalculator_init clock_a
                 APPRENTICE FLORIDA (Some 15) None None)],
        15, 156501 / 4225, 93126 / 4225)"
  by (simp add: EmployeePosition_of_def employee_defs)

text \<open>The residential template without its crew, and a crew of one apprentice.\<close>

theorem crew_cost_empty_crew_division_by_zero_witness:
  "calculate_crew_cost TrueHourlyEmployeeCostCalculator_init clock_a [] FLORIDA =
     Inl ZeroDivisionError \<and>
   calculate_loadout_pricing LoadoutPricingIntelligence_init clock_a
     (residential_tree_service \<lparr> crew_composition := [] \<rparr>) = Inl ZeroDivisionError \<and>
   \<not> isl (calculate_crew_cost TrueHourlyEmployeeCostCalculator_init clock_a
            [\<lparr> member_position = Some ''apprentice'', member_hourly_rate = Some 15 \<rparr>] FLORIDA) \<and>
   average_burden_multiplier (projr (calculate_crew_cost TrueHourlyEmployeeCostCalculator_init
     clock_a [\<lparr> member_position = Some ''apprentice'', member_hourly_rate = Some 15 \<rparr>]
     FLORIDA)) = (156501 / 4225) / 15"
proof -
  let ?cfg = "residential_tree_service \<lparr> crew_composition := [] \<rparr>"
  let ?cc = "[''climbers'' \<mapsto> 0, ''ground_crew'' \<mapsto> 0, ''chainsaws'' \<mapsto> 2, ''crews'' \<mapsto> (1::int)]"
  let ?eq = "calculate_loadout_equipment_cost EquipmentCostIntelligence_init clock_a
            (equipment_list residential_tree_service) ?cc STANDARD_WORK"
  have cfg: "crew_composition ?cfg = []" "equipment_list ?cfg = equipment_list residential_tree_service"
    "cfg_severity_factor ?cfg = STANDARD_WORK"
    "equipment_engine LoadoutPricingIntelligence_init = EquipmentCostIntelligence_init"
    by (simp_all add: residential_tree_service_def LoadoutPricingIntelligence_init_def)
  have eq: "?eq = Inr (projr ?eq)"
    using empty_crew_equipment_cost by simp
  note inst = crew_cost_empty_crew_division_by_zero
    [where self = TrueHourlyEmployeeCostCalculator_init and now = clock_a and st = FLORIDA
      and cfg = "?cfg" and lp = LoadoutPricingIntelligence_init and cc = "?cc"
      and e = "projr ?eq"
      and crew = "[\<lparr> member_position = Some ''apprentice'', member_hourly_rate = Some 15 \<rparr>]"
      and members = "[projr (calculate_true_hourly_cost TrueHourlyEmployeeCostCalculator_init
                 clock_a APPRENTICE FLORIDA (Some 15) None None)]"
      and total_rate = 15 and total_true = "156501 / 4225" and total_burden = "93126 / 4225"]
  from inst cfg eq extract_crew_config_empty apprentice_crew_loop
  show ?thesis by auto
qed

section \<open>Loadout pricing: the recommended billing rate\<close>

lemma bind_err_Inr_iff:
  "bind_err r f = Inr b \<longleftrightarrow> (\<exists>v. r = Inr v \<and> f v = Inr b)"
  by (cases r) (simp_all add: bind_err_def)

lemma py_div_Inr_iff: "py_div x y = Inr q \<longleftrightarrow> y \<noteq> 0 \<and> q = x / y"
  by (auto simp: py_div_def)

lemma cost_efficiency_score_Inr:
  assumes "calculate_cost_efficiency_score equipment_cost employee_cost pt = Inr x"
  shows "equipment_cost + employee_cost \<noteq> 0"
  using assms
  by (auto simp: calculate_cost_efficiency_score_def Let_def bind_err_Inr_iff py_div_Inr_iff)

lemma calculate_loadout_pricing_Inr:
  assumes "calculate_loadout_pricing self now cfg = Inr b"
  shows "\<exists>m. target_profit_margins self (project_type cfg) = Some m \<and> m \<noteq> 1 \<and>
             recommended_billing_rate b = lp_total_cost_per_hour b / (1 - m) \<and>
             break_even_rate b = lp_total_cost_per_hour b \<and>
             profit_margin_percentage b = m * 100 \<and>
             lp_total_cost_per_hour b = equipment_cost_per_hour b + employee_cost_per_hour b \<and>
             lp_total_cost_per_hour b \<noteq> 0"
proof (cases "target_profit_margins self (project_type cfg)")
  case None
  with assms show ?thesis
    by (simp add: calculate_loadout_pricing_def Let_def bind_err_Inr_iff)
next
  case margin: (Some m)
  show ?thesis
  proof (cases "competitive_rates self (project_type cfg)")
    case None
    with assms margin show ?thesis
      by (simp add: calculate_loadout_pricing_def Let_def bind_err_Inr_iff)
  next
    case (Some competitive_range)
    with assms margin show ?thesis
      by (auto simp: calculate_loadout_pricing_def Let_def bind_err_Inr_iff py_div_Inr_iff
          dest: cost_efficiency_score_Inr)
  qed
qed

lemmas loadout_defs =
  calculate_loadout_pricing_def LoadoutPricingIntelligence_init_def extract_crew_config_def
  calculate_loadout_equipment_cost_def calculate_small_tools_pool_cost_def
  load_small_tools_defaults_def small_tool_category_cost_def calculate_crew_cost_def
  calculate_cost_efficiency_score_def calculate_profitability_score_def
  EquipmentCategory_of_def EmployeePosition_of_def

lemma residential_pricing:
  "\<not> isl (calculate_loadout_pricing LoadoutPricingIntelligence_init clock_a
            residential_tree_service)"
  "lp_total_cost_per_hour (projr (calculate_loadout_pricing LoadoutPricingIntelligence_init
     clock_a residential_tree_service)) = 115767539 / 338000"
  by (simp_all add: residential_tree_service_def loadout_defs employee_defs equipment_defs)

lemma margin_markup:
  fixes c m :: real
  assumes "0 < m" "m < 1" "0 < c"
  shows "c < c / (1 - m)"
proof -
  from assms have "c * (1 - m) < c * 1"
    by (intro mult_strict_left_mono) simp_all
  with assms show ?thesis
    by (simp add: pos_less_divide_eq)
qed

text \<open>
  The total cost per hour of a loadout priced with the default cost tables. The small
  tools pool is positive, a crew configuration having at least two chainsaws and one crew;
  the cost of a piece of equipment is not negative when its purchase price is not; the
  true hourly cost of a crew member is positive when the hourly rate is not negative, the
  rate 0 giving no breakdown.
\<close>

lemma effective_purchase_price_nonneg:
  assumes "0 \<le> msrp_new d" and "\<forall>p. pp = Some p \<longrightarrow> 0 \<le> p"
  shows "0 \<le> effective_purchase_price d now pp y"
  using assms by (auto simp: effective_purchase_price_def split: option.splits)

lemma severity_value_nonneg: "0 \<le> severity_value sev"
  by (cases sev) simp_all

lemma equipment_cost_nonneg:
  assumes result: "calculate_equipment_cost self now ty mk pp y sev = Inr b"
    and defaults: "equipment_defaults self ty = Some d"
    and price: "0 \<le> effective_purchase_price d now pp y"
    and table: "0 \<le> salvage_percent d" "salvage_percent d \<le> 100" "0 < life_hours d"
      "0 \<le> fuel_burn_gph d" "0 \<le> maintenance_factor d"
    and object: "0 \<le> fuel_price self" "0 \<le> interest_rate self" "0 < annual_hours self"
  shows "0 \<le> total_cost_per_hour b"
proof -
  define P where "P = effective_purchase_price d now pp y"
  have "P * (salvage_percent d / 100) \<le> P * 1"
    using price table(2) unfolding P_def by (intro mult_left_mono) simp_all
  then have salvage: "P * (salvage_percent d / 100) \<le> P"
    by simp
  have salvage0: "0 \<le> P * (salvage_percent d / 100)"
    using price table(1) unfolding P_def by simp
  from result defaults have fields:
    "depreciation_per_hour b = (P - P * (salvage_percent d / 100)) / real_of_int (life_hours d)"
    "interest_per_hour b =
       ((P + P * (salvage_percent d / 100)) / 2 * interest_rate self) /
       real_of_int (annual_hours self)"
    "insurance_taxes_storage_per_hour b = (P * 0.03) / real_of_int (annual_hours self)"
    "fuel_per_hour b = fuel_burn_gph d * fuel_price self"
    "lubrication_per_hour b = fuel_per_hour b * 0.15"
    "repairs_maintenance_per_hour b =
       depreciation_per_hour b * (maintenance_factor d / 100) * severity_value sev"
    "wear_parts_per_hour b = depreciation_per_hour b * 0.20"
    unfolding calculate_equipment_cost_def P_def
    by (auto simp: Let_def bind_err_Inr_iff py_div_Inr_iff field_simps)
  have dep: "0 \<le> depreciation_per_hour b"
    unfolding fields(1) using salvage table(3) by simp
  have int: "0 \<le> interest_per_hour b"
    unfolding fields(2) using salvage0 price object(2,3) unfolding P_def [symmetric] by simp
  have ins: "0 \<le> insurance_taxes_storage_per_hour b"
    unfolding fields(3) using price object(3) unfolding P_def [symmetric] by simp
  have fuel: "0 \<le> fuel_per_hour b"
    unfolding fields(4) using table(4) object(1) by simp
  have lub: "0 \<le> lubrication_per_hour b"
    unfolding fields(5) using fuel by simp
  have rep: "0 \<le> repairs_maintenance_per_hour b"
    unfolding fields(6) using dep table(5) severity_value_nonneg [of sev] by simp
  have wear: "0 \<le> wear_parts_per_hour b"
    unfolding fields(7) using dep by simp
  from calculate_equipment_cost_total [OF result] dep int ins fuel lub rep wear
  show ?thesis by simp
qed

lemma load_equipment_defaults_ranges:
  "0 \<le> msrp_new (load_equipment_defaults ty)"
  "0 \<le> salvage_percent (load_equipment_defaults ty)"
  "salvage_percent (load_equipment_defaults ty) \<le> 100"
  "0 < life_hours (load_equipment_defaults ty)"
  "0 \<le> fuel_burn_gph (load_equipment_defaults ty)"
  "0 \<le> maintenance_factor (load_equipment_defaults ty)"
  by (cases ty; simp)+

lemma init_equipment_cost_nonneg:
  assumes "calculate_equipment_cost EquipmentCostIntelligence_init now ty mk pp y sev = Inr b"
    and "\<forall>p. pp = Some p \<longrightarrow> 0 \<le> p"
  shows "0 \<le> total_cost_per_hour b"
proof (rule equipment_cost_nonneg [OF assms(1)])
  show "equipment_defaults EquipmentCostIntelligence_init ty = Some (load_equipment_defaults ty)"
    by (simp add: EquipmentCostIntelligence_init_def)
  show "0 \<le> effective_purchase_price (load_equipment_defaults ty) now pp y"
    using load_equipment_defaults_ranges(1) assms(2) by (rule effective_purchase_price_nonneg)
qed (simp_all add: load_equipment_defaults_ranges EquipmentCostIntelligence_init_def)

lemma heavy_equipment_loop_nonneg:
  assumes "heavy_equipment_loop EquipmentCostIntelligence_init now sev xs (cs, t) = Inr (cs', t')"
    and "\<forall>item\<in>set xs. \<forall>p. item_purchase_price item = Some p \<longrightarrow> 0 \<le> p"
    and "0 \<le> t"
  shows "0 \<le> t'"
  using assms
proof (induction xs arbitrary: cs t)
  case Nil
  then show ?case by simp
next
  case (Cons x xs)
  from Cons.prems(1) obtain v ty cb where
    cb: "calculate_equipment_cost EquipmentCostIntelligence_init now ty (item_make_model x)
           (item_purchase_price x) (item_year x) sev = Inr cb"
    and rest: "heavy_equipment_loop EquipmentCostIntelligence_init now sev xs
           (cs @ [cb], t + total_cost_per_hour cb) = Inr (cs', t')"
    by (auto simp: bind_err_Inr_iff split: option.splits)
  from Cons.prems(2) have "\<forall>p. item_purchase_price x = Some p \<longrightarrow> 0 \<le> p"
    by simp
  from init_equipment_cost_nonneg [OF cb this] Cons.prems(3)
  have "0 \<le> t + total_cost_per_hour cb"
    by simp
  with Cons.IH [OF rest] Cons.prems(2) show ?case
    by simp
qed

lemma extract_crew_config_Inr:
  assumes "extract_crew_config crew = Inr cc"
  obtains c g k where
    "cc = [''climbers'' \<mapsto> c, ''ground_crew'' \<mapsto> g, ''chainsaws'' \<mapsto> k, ''crews'' \<mapsto> 1]"
    "0 \<le> c" "0 \<le> g" "2 \<le> k"
  using assms unfolding extract_crew_config_def Let_def
  by (auto split: if_splits)

lemma init_small_tools_pool_total:
  "calculate_small_tools_pool_cost EquipmentCostIntelligence_init
     [''climbers'' \<mapsto> c, ''ground_crew'' \<mapsto> g, ''chainsaws'' \<mapsto> k, ''crews'' \<mapsto> 1]
     ''Total Small Tools Pool'' =
   Some (0.42 * real_of_int k + 0.42 * real_of_int c + 0.17 + 0.25 * real_of_int (c + g) +
         0.28 + 0.33 + 0.10 * real_of_int (c + g))"
  by (simp add: calculate_small_tools_pool_cost_def EquipmentCostIntelligence_init_def
      load_small_tools_defaults_def small_tool_category_cost_def Let_def)

lemma small_tools_pool_positive:
  fixes c g k :: real
  assumes "0 \<le> c" "0 \<le> g" "2 \<le> k"
  shows "0 < 0.42 * k + 0.42 * c + 0.17 + 0.25 * (c + g) + 0.28 + 0.33 + 0.10 * (c + g)"
  using assms by (simp add: field_simps)

lemma init_loadout_equipment_cost_positive:
  assumes "calculate_loadout_equipment_cost EquipmentCostIntelligence_init now xs cc sev = Inr e"
    and "extract_crew_config crew = Inr cc"
    and "\<forall>item\<in>set xs. \<forall>p. item_purchase_price item = Some p \<longrightarrow> 0 \<le> p"
  shows "0 < total_equipment_cost_per_hour e"
proof -
  from assms(2) obtain c g k where
    cc: "cc = [''climbers'' \<mapsto> c, ''ground_crew'' \<mapsto> g, ''chainsaws'' \<mapsto> k, ''crews'' \<mapsto> 1]"
    and counts: "0 \<le> c" "0 \<le> g" "2 \<le> k"
    by (rule extract_crew_config_Inr)
  define s where "s = 0.42 * real_of_int k + 0.42 * real_of_int c + 0.17 +
    0.25 * real_of_int (c + g) + 0.28 + 0.33 + 0.10 * real_of_int (c + g)"
  have pool: "calculate_small_tools_pool_cost EquipmentCostIntelligence_init cc
     ''Total Small Tools Pool'' = Some s"
    unfolding cc s_def by (rule init_small_tools_pool_total)
  from counts have "0 \<le> real_of_int c" "0 \<le> real_of_int g" "2 \<le> real_of_int k"
    by simp_all
  then have s: "0 < s"
    unfolding s_def of_int_add by (rule small_tools_pool_positive)
  from assms(1) obtain cs t where
    loop: "heavy_equipment_loop EquipmentCostIntelligence_init now sev xs ([], 0) = Inr (cs, t)"
    and total: "total_equipment_cost_per_hour e = t + s"
    unfolding calculate_loadout_equipment_cost_def Let_def pool
    by (auto simp: bind_err_Inr_iff py_div_Inr_iff)
  from heavy_equipment_loop_nonneg [OF loop assms(3)] have "0 \<le> t"
    by simp
  with s total show ?thesis
    by simp
qed

lemma init_true_hourly_cost_zero_rate:
  "calculate_true_hourly_cost TrueHourlyEmployeeCostCalculator_init now pos st (Some 0)
     None None = Inl ZeroDivisionError"
  by (cases st) (simp_all add: employee_defs)

lemma init_true_hourly_cost_Inr_positive:
  assumes "calculate_true_hourly_cost TrueHourlyEmployeeCostCalculator_init now pos st rate_opt
             None None = Inr b"
    and "\<forall>r. rate_opt = Some r \<longrightarrow> 0 \<le> r"
  shows "0 < hourly_rate b \<and> hourly_rate b < true_hourly_cost b"
proof (cases rate_opt)
  case None
  from init_true_hourly_cost_positive_rate [OF init_position_base_rates_positive,
      of now pos st pos] assms(1)
  show ?thesis
    unfolding None init_true_hourly_cost_default_rate
    using init_position_base_rates_positive [of pos] by auto
next
  case (Some r)
  with assms(1) init_true_hourly_cost_zero_rate [of now pos st] have "r \<noteq> 0"
    by auto
  with assms(2) Some have "0 < r"
    by simp
  from init_true_hourly_cost_positive_rate [OF this, of now pos st] assms(1) \<open>0 < r\<close>
  show ?thesis
    unfolding Some by auto
qed

lemma crew_loop_nonneg:
  assumes "crew_loop TrueHourlyEmployeeCostCalculator_init now st xs (ms, tr, tt, tb) =
             Inr (ms', tr', tt', tb')"
    and "\<forall>member\<in>set xs. \<forall>r. member_hourly_rate member = Some r \<longrightarrow> 0 \<le> r"
    and "0 \<le> tt"
  shows "0 \<le> tt'"
  using assms
proof (induction xs arbitrary: ms tr tt tb)
  case Nil
  then show ?case by simp
next
  case (Cons x xs)
  from Cons.prems(1) obtain v pos ec where
    ec: "calculate_true_hourly_cost TrueHourlyEmployeeCostCalculator_init now pos st
           (member_hourly_rate x) None None = Inr ec"
    and rest: "crew_loop TrueHourlyEmployeeCostCalculator_init now st xs
           (ms @ [ec], tr + hourly_rate ec, tt + true_hourly_cost ec,
            tb + (true_hourly_cost ec - hourly_rate ec)) = Inr (ms', tr', tt', tb')"
    by (auto simp: bind_err_Inr_iff split: option.splits)
  from Cons.prems(2) have "\<forall>r. member_hourly_rate x = Some r \<longrightarrow> 0 \<le> r"
    by simp
  from init_true_hourly_cost_Inr_positive [OF ec this] Cons.prems(3)
  have "0 \<le> tt + true_hourly_cost ec"
    by simp
  with Cons.IH [OF rest] Cons.prems(2) show ?case
    by simp
qed

lemma init_crew_cost_nonneg:
  assumes "calculate_crew_cost TrueHourlyEmployeeCostCalculator_init now crew st = Inr c"
    and "\<forall>member\<in>set crew. \<forall>r. member_hourly_rate member = Some r \<longrightarrow> 0 \<le> r"
  shows "0 \<le> total_true_hourly_cost c"
proof -
  from assms(1) obtain ms tr tt tb where
    loop: "crew_loop TrueHourlyEmployeeCostCalculator_init now st crew ([], 0, 0, 0) =
             Inr (ms, tr, tt, tb)"
    and total: "total_true_hourly_cost c = tt"
    unfolding calculate_crew_cost_def
    by (auto simp: bind_err_Inr_iff py_div_Inr_iff)
  from crew_loop_nonneg [OF loop assms(2)] total show ?thesis
    by simp
qed

lemma calculate_loadout_pricing_parts:
  assumes "calculate_loadout_pricing self now cfg = Inr b"
  obtains cc e c where
    "extract_crew_config (crew_composition cfg) = Inr cc"
    "calculate_loadout_equipment_cost (equipment_engine self) now (equipment_list cfg) cc
       (cfg_severity_factor cfg) = Inr e"
    "calculate_crew_cost (employee_calculator self) now (crew_composition cfg)
       (cfg_location_state cfg) = Inr c"
    "lp_total_cost_per_hour b = total_equipment_cost_per_hour e + total_true_hourly_cost c"
proof (cases "target_profit_margins self (project_type cfg)")
  case None
  with assms show ?thesis
    by (simp add: calculate_loadout_pricing_def Let_def bind_err_Inr_iff)
next
  case margin: (Some m)
  show ?thesis
  proof (cases "competitive_rates self (project_type cfg)")
    case None
    with assms margin show ?thesis
      by (simp add: calculate_loadout_pricing_def Let_def bind_err_Inr_iff)
  next
    case (Some competitive_range)
    with assms margin that show ?thesis
      by (auto simp: calculate_loadout_pricing_def Let_def bind_err_Inr_iff)
  qed
qed

lemma init_loadout_total_positive:
  assumes "calculate_loadout_pricing self now cfg = Inr b"
    and "equipment_engine self = EquipmentCostIntelligence_init"
    and "employee_calculator self = TrueHourlyEmployeeCostCalculator_init"
    and "\<forall>member\<in>set (crew_composition cfg). \<forall>r. member_hourly_rate member = Some r \<longrightarrow> 0 \<le> r"
    and "\<forall>item\<in>set (equipment_list cfg). \<forall>p. item_purchase_price item = Some p \<longrightarrow> 0 \<le> p"
  shows "0 < lp_total_cost_per_hour b"
proof -
  from assms(1) obtain cc e c where
    parts: "extract_crew_config (crew_composition cfg) = Inr cc"
    "calculate_loadout_equipment_cost (equipment_engine self) now (equipment_list cfg) cc
       (cfg_severity_factor cfg) = Inr e"
    "calculate_crew_cost (employee_calculator self) now (crew_composition cfg)
       (cfg_location_state cfg) = Inr c"
    "lp_total_cost_per_hour b = total_equipment_cost_per_hour e + total_true_hourly_cost c"
    by (rule calculate_loadout_pricing_parts)
  from init_loadout_equipment_cost_positive [OF parts(2) [unfolded assms(2)] parts(1) assms(5)]
    init_crew_cost_nonneg [OF parts(3) [unfolded assms(3)] assms(4)] parts(4)
  show ?thesis
    by simp
qed

text \<open>
  With the default cost tables, a loadout with a crew of known positions and positive
  hourly rates, and equipment of known types and non-negative purchase prices, is priced:
  no division of the computation is by zero.
\<close>

lemma heavy_equipment_loop_returns:
  assumes "\<forall>item\<in>set xs. \<exists>v. item_type item = Some v \<and> \<not> isl (EquipmentCategory_of v)"
  shows "\<exists>cs' t'. heavy_equipment_loop EquipmentCostIntelligence_init now sev xs (cs, t) =
           Inr (cs', t')"
  using assms
proof (induction xs arbitrary: cs t)
  case Nil
  then show ?case by simp
next
  case (Cons x xs)
  from Cons.prems obtain v where v: "item_type x = Some v" "\<not> isl (EquipmentCategory_of v)"
    by auto
  then obtain ty where ty: "EquipmentCategory_of v = Inr ty"
    by (cases "EquipmentCategory_of v") simp_all
  from init_equipment_cost_returns obtain cb where
    "calculate_equipment_cost EquipmentCostIntelligence_init now ty (item_make_model x)
       (item_purchase_price x) (item_year x) sev = Inr cb"
    by blast
  with v(1) ty Cons.IH [of "cs @ [cb]" "t + total_cost_per_hour cb"] Cons.prems show ?case
    by (simp add: bind_err_simps)
qed

lemma init_loadout_equipment_cost_returns:
  assumes "\<forall>item\<in>set xs. \<exists>v. item_type item = Some v \<and> \<not> isl (EquipmentCategory_of v)"
    and "\<forall>item\<in>set xs. \<forall>p. item_purchase_price item = Some p \<longrightarrow> 0 \<le> p"
    and "extract_crew_config crew = Inr cc"
  shows "\<exists>e. calculate_loadout_equipment_cost EquipmentCostIntelligence_init now xs cc sev =
           Inr e"
proof -
  from assms(3) obtain c g k where
    cc: "cc = [''climbers'' \<mapsto> c, ''ground_crew'' \<mapsto> g, ''chainsaws'' \<mapsto> k, ''crews'' \<mapsto> 1]"
    and counts: "0 \<le> c" "0 \<le> g" "2 \<le> k"
    by (rule extract_crew_config_Inr)
  define s where "s = 0.42 * real_of_int k + 0.42 * real_of_int c + 0.17 +
    0.25 * real_of_int (c + g) + 0.28 + 0.33 + 0.10 * real_of_int (c + g)"
  have pool: "calculate_small_tools_pool_cost EquipmentCostIntelligence_init cc
     ''Total Small Tools Pool'' = Some s"
    unfolding cc s_def by (rule init_small_tools_pool_total)
  from counts have "0 \<le> real_of_int c" "0 \<le> real_of_int g" "2 \<le> real_of_int k"
    by simp_all
  then have s: "0 < s"
    unfolding s_def of_int_add by (rule small_tools_pool_positive)
  from heavy_equipment_loop_returns [OF assms(1)] obtain cs t where
    loop: "heavy_equipment_loop EquipmentCostIntelligence_init now sev xs ([], 0) = Inr (cs, t)"
    by blast
  from heavy_equipment_loop_nonneg [OF loop assms(2)] have "0 \<le> t"
    by simp
  with s have "t + s \<noteq> 0"
    by simp
  then show ?thesis
    unfolding calculate_loadout_equipment_cost_def Let_def loop pool
    by (simp add: bind_err_simps py_div_def)
qed

lemma extract_crew_config_returns:
  assumes "\<forall>member\<in>set crew.
             \<exists>v. member_position member = Some v \<and> \<not> isl (EmployeePosition_of v)"
  shows "\<exists>cc. extract_crew_config crew = Inr cc"
proof -
  from assms have "None \<notin> set (map member_position crew)"
    by auto
  then show ?thesis
    unfolding extract_crew_config_def Let_def by simp
qed

lemma init_true_hourly_cost_returns:
  assumes "\<forall>r. rate_opt = Some r \<longrightarrow> 0 < r"
  shows "\<exists>b. calculate_true_hourly_cost TrueHourlyEmployeeCostCalculator_init now pos st
               rate_opt None None = Inr b \<and> 0 < hourly_rate b"
proof (cases rate_opt)
  case None
  from init_true_hourly_cost_positive_rate [OF init_position_base_rates_positive,
      of now pos st pos]
  show ?thesis
    unfolding None init_true_hourly_cost_default_rate
    using init_position_base_rates_positive [of pos] by auto
next
  case (Some r)
  with assms have "0 < r"
    by simp
  from init_true_hourly_cost_positive_rate [OF this, of now pos st] \<open>0 < r\<close>
  show ?thesis
    unfolding Some by auto
qed

lemma crew_loop_returns:
  assumes "\<forall>member\<in>set xs.
             \<exists>v. member_position member = Some v \<and> \<not> isl (EmployeePosition_of v)"
    and "\<forall>member\<in>set xs. \<forall>r. member_hourly_rate member = Some r \<longrightarrow> 0 < r"
    and "0 \<le> tr"
  shows "\<exists>ms' tr' tt' tb'.
           crew_loop TrueHourlyEmployeeCostCalculator_init now st xs (ms, tr, tt, tb) =
             Inr (ms', tr', tt', tb') \<and> tr \<le> tr' \<and> (xs \<noteq> [] \<longrightarrow> 0 < tr')"
  using assms
proof (induction xs arbitrary: ms tr tt tb)
  case Nil
  then show ?case by simp
next
  case (Cons x xs)
  from Cons.prems(1) obtain v where v: "member_position x = Some v"
    "\<not> isl (EmployeePosition_of v)"
    by auto
  then obtain pos where pos: "EmployeePosition_of v = Inr pos"
    by (cases "EmployeePosition_of v") simp_all
  from Cons.prems(2) have "\<forall>r. member_hourly_rate x = Some r \<longrightarrow> 0 < r"
    by simp
  from init_true_hourly_cost_returns [OF this] obtain ec where
    ec: "calculate_true_hourly_cost TrueHourlyEmployeeCostCalculator_init now pos st
           (member_hourly_rate x) None None = Inr ec"
    and rate: "0 < hourly_rate ec"
    by blast
  from rate Cons.prems(3) have "0 \<le> tr + hourly_rate ec"
    by simp
  from Cons.IH [OF _ _ this, of "ms @ [ec]" "tt + true_hourly_cost ec"
      "tb + (true_hourly_cost ec - hourly_rate ec)"] Cons.prems(1,2)
  obtain ms' tr' tt' tb' where
    "crew_loop TrueHourlyEmployeeCostCalculator_init now st xs
       (ms @ [ec], tr + hourly_rate ec, tt + true_hourly_cost ec,
        tb + (true_hourly_cost ec - hourly_rate ec)) = Inr (ms', tr', tt', tb')"
    "tr + hourly_rate ec \<le> tr'"
    by auto
  with v(1) pos ec rate Cons.prems(3) show ?case
    by (simp add: bind_err_simps)
qed

lemma init_crew_cost_returns:
  assumes "crew \<noteq> []"
    and "\<forall>member\<in>set crew.
           \<exists>v. member_position member = Some v \<and> \<not> isl (EmployeePosition_of v)"
    and "\<forall>member\<in>set crew. \<forall>r. member_hourly_rate member = Some r \<longrightarrow> 0 < r"
  shows "\<exists>c. calculate_crew_cost TrueHourlyEmployeeCostCalculator_init now crew st = Inr c"
proof -
  from crew_loop_returns [OF assms(2,3), of 0 now st "[]" 0 0] assms(1)
  obtain ms tr tt tb where
    loop: "crew_loop TrueHourlyEmployeeCostCalculator_init now st crew ([], 0, 0, 0) =
             Inr (ms, tr, tt, tb)"
    and "0 < tr"
    by auto
  then show ?thesis
    unfolding calculate_crew_cost_def by (simp add: bind_err_simps py_div_def)
qed

lemma cost_efficiency_score_returns:
  assumes "equipment_cost + employee_cost \<noteq> 0"
  shows "\<exists>x. calculate_cost_efficiency_score equipment_cost employee_cost pt = Inr x"
  using assms
  by (simp add: calculate_cost_efficiency_score_def Let_def py_div_def bind_err_simps
      split: prod.split)

lemma init_profitability_score_returns:
  "\<exists>x. calculate_profitability_score r (init_competitive_rates pt) m = Inr x"
  by (cases pt) (simp_all add: calculate_profitability_score_def py_div_def bind_err_def Let_def)

lemma init_tables_pricing_returns:
  assumes "target_profit_margins self (project_type cfg) = Some m"
    and "m \<noteq> 1"
    and "equipment_engine self = EquipmentCostIntelligence_init"
    and "employee_calculator self = TrueHourlyEmployeeCostCalculator_init"
    and "competitive_rates self (project_type cfg) =
           Some (init_competitive_rates (project_type cfg))"
    and "crew_composition cfg \<noteq> []"
    and "\<forall>member\<in>set (crew_composition cfg).
           \<exists>v. member_position member = Some v \<and> \<not> isl (EmployeePosition_of v)"
    and "\<forall>member\<in>set (crew_composition cfg). \<forall>r. member_hourly_rate member = Some r \<longrightarrow> 0 < r"
    and "\<forall>item\<in>set (equipment_list cfg).
           \<exists>v. item_type item = Some v \<and> \<not> isl (EquipmentCategory_of v)"
    and "\<forall>item\<in>set (equipment_list cfg). \<forall>p. item_purchase_price item = Some p \<longrightarrow> 0 \<le> p"
  shows "\<exists>b. calculate_loadout_pricing self now cfg = Inr b"
proof -
  from extract_crew_config_returns [OF assms(7)] obtain cc where
    cc: "extract_crew_config (crew_composition cfg) = Inr cc"
    by blast
  from init_loadout_equipment_cost_returns [OF assms(9,10) cc] obtain e where
    e: "calculate_loadout_equipment_cost EquipmentCostIntelligence_init now (equipment_list cfg)
          cc (cfg_severity_factor cfg) = Inr e"
    by blast
  from init_crew_cost_returns [OF assms(6,7,8)] obtain c where
    c: "calculate_crew_cost TrueHourlyEmployeeCostCalculator_init now (crew_composition cfg)
          (cfg_location_state cfg) = Inr c"
    by blast
  from assms(8) have
    "\<forall>member\<in>set (crew_composition cfg). \<forall>r. member_hourly_rate member = Some r \<longrightarrow> 0 \<le> r"
    by fastforce
  from init_loadout_equipment_cost_positive [OF e cc assms(10)]
    init_crew_cost_nonneg [OF c this]
  have total: "total_equipment_cost_per_hour e + total_true_hourly_cost c \<noteq> 0"
    by simp
  from cost_efficiency_score_returns [OF this] obtain x where
    x: "calculate_cost_efficiency_score (total_equipment_cost_per_hour e)
          (total_true_hourly_cost c) (project_type cfg) = Inr x"
    by blast
  from init_profitability_score_returns obtain p where
    p: "calculate_profitability_score
          ((total_equipment_cost_per_hour e + total_true_hourly_cost c) / (1 - m))
          (init_competitive_rates (project_type cfg)) m = Inr p"
    by blast
  from assms(1-5) cc e c x p show ?thesis
    by (simp add: calculate_loadout_pricing_def Let_def bind_err_simps py_div_def)
qed

text \<open>
  Claim C3. For every loadout pricing result whose target margin is strictly between 0
  and 1, the recommended billing rate is the total cost per hour divided by one minus the
  margin, and it is strictly greater than the total cost per hour whenever that total is
  positive. The total is positive for every result obtained with the default cost tables
  from a loadout whose hourly rates and purchase prices, where given, are not negative; so
  there the recommended rate is strictly greater than the total cost. With the default
  tables and a margin strictly between 0 and 1, every loadout with a non-empty crew of
  known positions and positive hourly rates and with equipment of known types and
  non-negative purchase prices has such a result. The division of 239.02 by 1 - 0.35 is,
  to the cent, 367.72.
\<close>

theorem recommended_rate_from_margin:
  "(calculate_loadout_pricing self now cfg = Inr b \<and>
    target_profit_margins self (project_type cfg) = Some m \<and> 0 < m \<and> m < 1 \<longrightarrow>
      recommended_billing_rate b = lp_total_cost_per_hour b / (1 - m) \<and>
      (0 < lp_total_cost_per_hour b \<longrightarrow>
         lp_total_cost_per_hour b < recommended_billing_rate b) \<and>
      (equipment_engine self = EquipmentCostIntelligence_init \<and>
       employee_calculator self = TrueHourlyEmployeeCostCalculator_init \<and>
       (\<forall>member\<in>set (crew_composition cfg).
          \<forall>r. member_hourly_rate member = Some r \<longrightarrow> 0 \<le> r) \<and>
       (\<forall>item\<in>set (equipment_list cfg).
          \<forall>p. item_purchase_price item = Some p \<longrightarrow> 0 \<le> p) \<longrightarrow>
         0 < lp_total_cost_per_hour b \<and>
         lp_total_cost_per_hour b < recommended_billing_rate b)) \<and>
   (target_profit_margins self (project_type cfg) = Some m \<and> 0 < m \<and> m < 1 \<and>
    equipment_engine self = EquipmentCostIntelligence_init \<and>
    employee_calculator self = TrueHourlyEmployeeCostCalculator_init \<and>
    competitive_rates self (project_type cfg) =
      Some (init_competitive_rates (project_type cfg)) \<and>
    crew_composition cfg \<noteq> [] \<and>
    (\<forall>member\<in>set (crew_composition cfg).
       \<exists>v. member_position member = Some v \<and> \<not> isl (EmployeePosition_of v)) \<and>
    (\<forall>member\<in>set (crew_composition cfg).
       \<forall>r. member_hourly_rate member = Some r \<longrightarrow> 0 < r) \<and>
    (\<forall>item\<in>set (equipment_list cfg).
       \<exists>v. item_type item = Some v \<and> \<not> isl (EquipmentCategory_of v)) \<and>
    (\<forall>item\<in>set (equipment_list cfg).
       \<forall>p. item_purchase_price item = Some p \<longrightarrow> 0 \<le> p) \<longrightarrow>
      (\<exists>b'. calculate_loadout_pricing self now cfg = Inr b' \<and>
            recommended_billing_rate b' = lp_total_cost_per_hour b' / (1 - m) \<and>
            0 < lp_total_cost_per_hour b' \<and>
            lp_total_cost_per_hour b' < recommended_billing_rate b')) \<and>
   py_div 239.02 (1 - 0.35) = Inr (239.02 / (1 - 0.35)) \<and>
   \<bar>239.02 / (1 - 0.35) - 367.72\<bar> < (0.005 :: real)"
proof -
  have rate: "recommended_billing_rate b = lp_total_cost_per_hour b / (1 - m)"
    if "calculate_loadout_pricing self now cfg = Inr b"
      and "target_profit_margins self (project_type cfg) = Some m"
    for b
    using calculate_loadout_pricing_Inr [OF that(1)] that(2) by auto
  have markup: "lp_total_cost_per_hour b < recommended_billing_rate b"
    if "calculate_loadout_pricing self now cfg = Inr b"
      and "target_profit_margins self (project_type cfg) = Some m"
      and "0 < m" "m < 1" "0 < lp_total_cost_per_hour b"
    for b
    unfolding rate [OF that(1,2)] using that(3,4,5) by (rule margin_markup)
  have positive: "0 < lp_total_cost_per_hour b"
    if "calculate_loadout_pricing self now cfg = Inr b"
      and "equipment_engine self = EquipmentCostIntelligence_init"
      and "employee_calculator self = TrueHourlyEmployeeCostCalculator_init"
      and "\<forall>member\<in>set (crew_composition cfg).
             \<forall>r. member_hourly_rate member = Some r \<longrightarrow> 0 \<le> r"
      and "\<forall>item\<in>set (equipment_list cfg).
             \<forall>p. item_purchase_price item = Some p \<longrightarrow> 0 \<le> p"
    for b
    using that by (rule init_loadout_total_positive)
  have returns: "\<exists>b'. calculate_loadout_pricing self now cfg = Inr b' \<and>
            recommended_billing_rate b' = lp_total_cost_per_hour b' / (1 - m) \<and>
            0 < lp_total_cost_per_hour b' \<and>
            lp_total_cost_per_hour b' < recommended_billing_rate b'"
    if margin: "target_profit_margins self (project_type cfg) = Some m" "0 < m" "m < 1"
      and tables: "equipment_engine self = EquipmentCostIntelligence_init"
        "employee_calculator self = TrueHourlyEmployeeCostCalculator_init"
        "competitive_rates self (project_type cfg) =
           Some (init_competitive_rates (project_type cfg))"
      and crew: "crew_composition cfg \<noteq> []"
        "\<forall>member\<in>set (crew_composition cfg).
           \<exists>v. member_position member = Some v \<and> \<not> isl (EmployeePosition_of v)"
        "\<forall>member\<in>set (crew_composition cfg).
           \<forall>r. member_hourly_rate member = Some r \<longrightarrow> 0 < r"
      and equipment: "\<forall>item\<in>set (equipment_list cfg).
           \<exists>v. item_type item = Some v \<and> \<not> isl (EquipmentCategory_of v)"
        "\<forall>item\<in>set (equipment_list cfg).
           \<forall>p. item_purchase_price item = Some p \<longrightarrow> 0 \<le> p"
  proof -
    from margin(3) have "m \<noteq> 1"
      by simp
    from init_tables_pricing_returns [OF margin(1) this tables crew equipment]
    obtain b' where b': "calculate_loadout_pricing self now cfg = Inr b'"
      by blast
    from crew(3) have "\<forall>member\<in>set (crew_composition cfg).
        \<forall>r. member_hourly_rate member = Some r \<longrightarrow> 0 \<le> r"
      by fastforce
    from positive [OF b' tables(1,2) this equipment(2)]
    have total: "0 < lp_total_cost_per_hour b'" .
    from b' rate [OF b' margin(1)] total markup [OF b' margin total] show ?thesis
      by blast
  qed
  have example: "py_div 239.02 (1 - 0.35) = Inr (239.02 / (1 - 0.35))"
    "\<bar>239.02 / (1 - 0.35) - 367.72\<bar> < (0.005 :: real)"
    by (simp_all add: py_div_def)
  from rate markup positive returns example show ?thesis
    by blast
qed

text \<open>
  The residential template, priced with the default tables and the default margin of 0.35:
  a crew of four at 32, 28, 22 and 18 an hour, a bucket truck, a chipper and a pickup truck.
\<close>

theorem recommended_rate_from_margin_witness:
  "\<not> isl (calculate_loadout_pricing LoadoutPricingIntelligence_init clock_a
            residential_tree_service) \<and>
   target_profit_margins LoadoutPricingIntelligence_init
     (project_type residential_tree_service) = Some 0.35 \<and>
   (0 :: real) < 0.35 \<and> (0.35 :: real) < 1 \<and>
   lp_total_cost_per_hour (projr (calculate_loadout_pricing LoadoutPricingIntelligence_init
     clock_a residential_tree_service)) = 115767539 / 338000 \<and>
   recommended_billing_rate (projr (calculate_loadout_pricing LoadoutPricingIntelligence_init
     clock_a residential_tree_service)) = (115767539 / 338000) / (1 - 0.35) \<and>
   lp_total_cost_per_hour (projr (calculate_loadout_pricing LoadoutPricingIntelligence_init
     clock_a residential_tree_service))
     < recommended_billing_rate (projr (calculate_loadout_pricing
         LoadoutPricingIntelligence_init clock_a residential_tree_service))"
proof -
  let ?r = "calculate_loadout_pricing LoadoutPricingIntelligence_init clock_a
    residential_tree_service"
  have bounds: "(0 :: real) < 0.35" "(0.35 :: real) < 1"
    by simp_all
  have margin: "target_profit_margins LoadoutPricingIntelligence_init
     (project_type residential_tree_service) = Some 0.35"
    by (simp add: LoadoutPricingIntelligence_init_def residential_tree_service_def)
  have tables: "equipment_engine LoadoutPricingIntelligence_init = EquipmentCostIntelligence_init"
    "employee_calculator LoadoutPricingIntelligence_init = TrueHourlyEmployeeCostCalculator_init"
    "competitive_rates LoadoutPricingIntelligence_init (project_type residential_tree_service) =
       Some (init_competitive_rates (project_type residential_tree_service))"
    by (simp_all add: LoadoutPricingIntelligence_init_def)
  have crew: "crew_composition residential_tree_service \<noteq> []"
    "\<forall>member\<in>set (crew_composition residential_tree_service).
       \<exists>v. member_position member = Some v \<and> \<not> isl (EmployeePosition_of v)"
    "\<forall>member\<in>set (crew_composition residential_tree_service).
       \<forall>r. member_hourly_rate member = Some r \<longrightarrow> 0 < r"
    "\<forall>member\<in>set (crew_composition residential_tree_service).
       \<forall>r. member_hourly_rate member = Some r \<longrightarrow> 0 \<le> r"
    by (simp_all add: residential_tree_service_def EmployeePosition_of_def)
  have equipment: "\<forall>item\<in>set (equipment_list residential_tree_service).
       \<exists>v. item_type item = Some v \<and> \<not> isl (EquipmentCategory_of v)"
    "\<forall>item\<in>set (equipment_list residential_tree_service).
       \<forall>p. item_purchase_price item = Some p \<longrightarrow> 0 \<le> p"
    by (simp_all add: residential_tree_service_def EquipmentCategory_of_def)
  note inst = recommended_rate_from_margin [where self = LoadoutPricingIntelligence_init
      and now = clock_a and cfg = residential_tree_service and m = "0.35" and b = "projr ?r"]
  from inst margin bounds tables crew(1,2,3) equipment have "\<exists>b'. ?r = Inr b'"
    by blast
  then have ok: "\<not> isl ?r" and r: "?r = Inr (projr ?r)"
    by auto
  from inst r margin bounds tables(1,2) crew(4) equipment(2)
  have rate: "recommended_billing_rate (projr ?r) = lp_total_cost_per_hour (projr ?r) / (1 - 0.35)"
    and markup: "lp_total_cost_per_hour (projr ?r) < recommended_billing_rate (projr ?r)"
    by blast+
  have total: "lp_total_cost_per_hour (projr ?r) = 115767539 / 338000"
    using residential_pricing(2) .
  from ok margin total rate markup show ?thesis
    by simp
qed

lemma apprentice_margin_pricing:
  "\<not> isl (calculate_loadout_pricing (with_target_margin 1.5) clock_a (apprentice_loadout 15))"
  "lp_total_cost_per_hour (projr (calculate_loadout_pricing (with_target_margin 1.5) clock_a
     (apprentice_loadout 15))) = 326691 / 8450"
  "recommended_billing_rate (projr (calculate_loadout_pricing (with_target_margin 1.5) clock_a
     (apprentice_loadout 15))) = - (326691 / 4225)"
  "calculate_loadout_pricing (with_target_margin 1) clock_a (apprentice_loadout 15) =
     Inl ZeroDivisionError"
  by (simp_all add: apprentice_loadout_def with_target_margin_def loadout_defs employee_defs
      equipment_defs)

text \<open>
  Claim C4 says that a target margin of 1 or more is rejected with an \<open>InvalidMargin\<close>
  error. The code has no such error and no check of the margin: with the margin 1.5 it
  returns a negative recommended rate, and with the margin 1 the division itself raises
  \<open>ZeroDivisionError\<close>.
\<close>

theorem margin_above_one_counterexample:
  "\<not> isl (calculate_loadout_pricing (with_target_margin 1.5) clock_a (apprentice_loadout 15)) \<and>
   recommended_billing_rate (projr (calculate_loadout_pricing (with_target_margin 1.5) clock_a
     (apprentice_loadout 15))) = - (326691 / 4225) \<and>
   calculate_loadout_pricing (with_target_margin 1) clock_a (apprentice_loadout 15) =
     Inl ZeroDivisionError"
  using apprentice_margin_pricing by simp

lemma margin_one_zero_division:
  assumes "target_profit_margins self (project_type cfg) = Some 1"
    and "extract_crew_config (crew_composition cfg) = Inr cc"
    and "calculate_loadout_equipment_cost (equipment_engine self) now (equipment_list cfg) cc
           (cfg_severity_factor cfg) = Inr e"
    and "calculate_crew_cost (employee_calculator self) now (crew_composition cfg)
           (cfg_location_state cfg) = Inr c"
  shows "calculate_loadout_pricing self now cfg = Inl ZeroDivisionError"
  unfolding calculate_loadout_pricing_def assms bind_err_simps Let_def option.case
  by (simp add: py_div_def bind_err_simps)

text \<open>
  Claim C4, amended. With a target margin of exactly 1 the computation never returns a
  result, and when the steps before the division succeed it ends with
  \<open>ZeroDivisionError\<close>; with a target margin above 1 every result it returns has the
  recommended rate total / (1 - margin), which is negative for a positive total cost.
\<close>

theorem margin_one_raises_zero_division:
  "(target_profit_margins self (project_type cfg) = Some 1 \<longrightarrow>
      isl (calculate_loadout_pricing self now cfg)) \<and>
   (target_profit_margins self (project_type cfg) = Some 1 \<and>
    extract_crew_config (crew_composition cfg) = Inr cc \<and>
    calculate_loadout_equipment_cost (equipment_engine self) now (equipment_list cfg) cc
      (cfg_severity_factor cfg) = Inr e \<and>
    calculate_crew_cost (employee_calculator self) now (crew_composition cfg)
      (cfg_location_state cfg) = Inr c \<longrightarrow>
      calculate_loadout_pricing self now cfg = Inl ZeroDivisionError) \<and>
   (target_profit_margins self (project_type cfg) = Some m \<and> 1 < m \<and>
    calculate_loadout_pricing self now cfg = Inr b \<longrightarrow>
      recommended_billing_rate b = lp_total_cost_per_hour b / (1 - m) \<and>
      (0 < lp_total_cost_per_hour b \<longrightarrow> recommended_billing_rate b < 0))"
proof (intro conjI impI)
  assume one: "target_profit_margins self (project_type cfg) = Some 1"
  show "isl (calculate_loadout_pricing self now cfg)"
  proof (cases "calculate_loadout_pricing self now cfg")
    case (Inr b')
    from calculate_loadout_pricing_Inr [OF this] one show ?thesis by simp
  qed simp
next
  assume "target_profit_margins self (project_type cfg) = Some 1 \<and>
    extract_crew_config (crew_composition cfg) = Inr cc \<and>
    calculate_loadout_equipment_cost (equipment_engine self) now (equipment_list cfg) cc
      (cfg_severity_factor cfg) = Inr e \<and>
    calculate_crew_cost (employee_calculator self) now (crew_composition cfg)
      (cfg_location_state cfg) = Inr c"
  then show "calculate_loadout_pricing self now cfg = Inl ZeroDivisionError"
    using margin_one_zero_division by blast
next
  assume a: "target_profit_margins self (project_type cfg) = Some m \<and> 1 < m \<and>
    calculate_loadout_pricing self now cfg = Inr b"
  with calculate_loadout_pricing_Inr [of self now cfg b]
  show rate: "recommended_billing_rate b = lp_total_cost_per_hour b / (1 - m)"
    by auto
  assume "0 < lp_total_cost_per_hour b"
  with a show "recommended_billing_rate b < 0"
    unfolding rate by (simp add: divide_pos_neg)
qed

text \<open>One apprentice at 15 an hour, priced with the margins 1 and 1.5.\<close>

theorem margin_one_raises_zero_division_witness:
  "target_profit_margins (with_target_margin 1) (project_type (apprentice_loadout 15)) = Some 1 \<and>
   isl (calculate_loadout_pricing (with_target_margin 1) clock_a (apprentice_loadout 15)) \<and>
   target_profit_margins (with_target_margin 1.5) (project_type (apprentice_loadout 15)) =
     Some 1.5 \<and>
   (1 :: real) < 1.5 \<and>
   \<not> isl (calculate_loadout_pricing (with_target_margin 1.5) clock_a (apprentice_loadout 15)) \<and>
   0 < lp_total_cost_per_hour (projr (calculate_loadout_pricing (with_target_margin 1.5)
         clock_a (apprentice_loadout 15))) \<and>
   recommended_billing_rate (projr (calculate_loadout_pricing (with_target_margin 1.5) clock_a
     (apprentice_loadout 15))) < 0"
proof -
  define r where
    "r = calculate_loadout_pricing (with_target_margin 1.5) clock_a (apprentice_loadout 15)"
  have ok: "\<not> isl r" and total: "0 < lp_total_cost_per_hour (projr r)"
    using apprentice_margin_pricing(1,2) unfolding r_def by simp_all
  from ok have r: "r = Inr (projr r)" by simp
  have margins:
    "target_profit_margins (with_target_margin 1) (project_type (apprentice_loadout 15)) = Some 1"
    "target_profit_margins (with_target_margin 1.5) (project_type (apprentice_loadout 15)) =
       Some 1.5"
    by (simp_all add: with_target_margin_def)
  from margin_one_raises_zero_division [of "with_target_margin 1" "apprentice_loadout 15"
      clock_a] margins(1)
  have one: "isl (calculate_loadout_pricing (with_target_margin 1) clock_a
      (apprentice_loadout 15))"
    by blast
  from margin_one_raises_zero_division [where self = "with_target_margin 1.5"
      and cfg = "apprentice_loadout 15" and now = clock_a and m = "1.5" and b = "projr r"]
    margins(2) r total
  have "recommended_billing_rate (projr r) < 0"
    unfolding r_def by simp
  with one margins ok total show ?thesis
    unfolding r_def by simp
qed

section \<open>The clock: generated identifiers and depreciation by age\<close>

text \<open>
  The functions below read \<open>datetime.now()\<close>: the cost of one piece of equipment, of one
  employee, of a loadout's equipment, of a crew, and the loadout pricing. The lemmas compare
  two calls that differ only in the clock reading, with the generated identifier blanked.
\<close>

lemma map_sum_bind_err:
  "map_sum id g (bind_err r f) = bind_err r (\<lambda>v. map_sum id g (f v))"
  by (cases r) (simp_all add: bind_err_def)

lemma map_sum_id_eq_cases:
  assumes "map_sum id g r1 = map_sum id g r2"
  obtains (err) e where "r1 = Inl e" "r2 = Inl e"
    | (ok) a b where "r1 = Inr a" "r2 = Inr b" "g a = g b"
  using assms by (cases r1; cases r2) simp_all

lemma effective_purchase_price_same_year:
  assumes "dt_year now1 = dt_year now2"
  shows "effective_purchase_price d now1 pp y = effective_purchase_price d now2 pp y"
  unfolding effective_purchase_price_def assms ..

lemma equipment_cost_up_to_id:
  assumes "dt_year now1 = dt_year now2"
  shows "map_sum id (\<lambda>b. b\<lparr>equipment_id := []\<rparr>)
           (calculate_equipment_cost self now1 ty mk pp y sev) =
         map_sum id (\<lambda>b. b\<lparr>equipment_id := []\<rparr>)
           (calculate_equipment_cost self now2 ty mk pp y sev)"
  unfolding calculate_equipment_cost_def Let_def
    effective_purchase_price_same_year [OF assms, of _ pp y]
  by (cases "equipment_defaults self ty") (simp_all add: map_sum_bind_err)

lemma employee_cost_up_to_id:
  "map_sum id (\<lambda>b. b\<lparr>employee_id := []\<rparr>)
     (calculate_true_hourly_cost self now1 pos st rate bf npt) =
   map_sum id (\<lambda>b. b\<lparr>employee_id := []\<rparr>)
     (calculate_true_hourly_cost self now2 pos st rate bf npt)"
  unfolding calculate_true_hourly_cost_def Let_def
  by (simp add: map_sum_bind_err)


lemma heavy_equipment_loop_up_to_id:
  assumes "dt_year now1 = dt_year now2"
    and "map (\<lambda>b. b\<lparr>equipment_id := []\<rparr>) cs1 = map (\<lambda>b. b\<lparr>equipment_id := []\<rparr>) cs2"
  shows "map_sum id (\<lambda>(cs, t). (map (\<lambda>b. b\<lparr>equipment_id := []\<rparr>) cs, t))
           (heavy_equipment_loop self now1 sev xs (cs1, t)) =
         map_sum id (\<lambda>(cs, t). (map (\<lambda>b. b\<lparr>equipment_id := []\<rparr>) cs, t))
           (heavy_equipment_loop self now2 sev xs (cs2, t))"
  using assms(2)
proof (induction xs arbitrary: cs1 cs2 t)
  case Nil
  then show ?case by simp
next
  case (Cons x xs)
  show ?case
  proof (cases "item_type x")
    case None
    then show ?thesis by simp
  next
    case (Some v)
    show ?thesis
    proof (cases "EquipmentCategory_of v")
      case (Inl e)
      with Some show ?thesis by (simp add: bind_err_simps)
    next
      case (Inr ty)
      from equipment_cost_up_to_id [OF assms(1), of self ty "item_make_model x"
          "item_purchase_price x" "item_year x" sev]
      show ?thesis
      proof (cases rule: map_sum_id_eq_cases)
        case (err e)
        with Some Inr show ?thesis by (simp add: bind_err_simps)
      next
        case (ok a b)
        from ok(3) have "total_cost_per_hour (a\<lparr>equipment_id := []\<rparr>) =
            total_cost_per_hour (b\<lparr>equipment_id := []\<rparr>)"
          by simp
        then have total: "total_cost_per_hour a = total_cost_per_hour b"
          by simp
        from ok(3) Cons.prems
        have "map (\<lambda>b. b\<lparr>equipment_id := []\<rparr>) (cs1 @ [a]) =
            map (\<lambda>b. b\<lparr>equipment_id := []\<rparr>) (cs2 @ [b])"
          by simp
        from Cons.IH [OF this] Some Inr ok(1,2) total show ?thesis
          by (simp add: bind_err_simps)
      qed
    qed
  qed
qed


lemma loadout_equipment_cost_up_to_id:
  assumes "dt_year now1 = dt_year now2"
  shows "map_sum id (\<lambda>e. e\<lparr>equipment_details :=
             map (\<lambda>b. b\<lparr>equipment_id := []\<rparr>) (equipment_details e)\<rparr>)
           (calculate_loadout_equipment_cost self now1 xs cc sev) =
         map_sum id (\<lambda>e. e\<lparr>equipment_details :=
             map (\<lambda>b. b\<lparr>equipment_id := []\<rparr>) (equipment_details e)\<rparr>)
           (calculate_loadout_equipment_cost self now2 xs cc sev)"
proof -
  have "map (\<lambda>b. b\<lparr>equipment_id := []\<rparr>) [] = map (\<lambda>b. b\<lparr>equipment_id := []\<rparr>) []"
    by simp
  from heavy_equipment_loop_up_to_id [OF assms this, of self sev xs 0]
  show ?thesis
  proof (cases rule: map_sum_id_eq_cases)
    case (err e)
    then show ?thesis
      by (simp add: calculate_loadout_equipment_cost_def bind_err_simps)
  next
    case (ok a b)
    obtain cs1 t1 cs2 t2 where ab: "a = (cs1, t1)" "b = (cs2, t2)"
      by (cases a, cases b) blast
    with ok(3) have "map (\<lambda>b. b\<lparr>equipment_id := []\<rparr>) cs1 =
        map (\<lambda>b. b\<lparr>equipment_id := []\<rparr>) cs2" "t1 = t2"
      by simp_all
    with ok(1,2) ab show ?thesis
      unfolding calculate_loadout_equipment_cost_def Let_def
      by (simp add: bind_err_simps map_sum_bind_err split: option.split)
  qed
qed

lemma crew_loop_up_to_id:
  assumes "map (\<lambda>b. b\<lparr>employee_id := []\<rparr>) ms1 = map (\<lambda>b. b\<lparr>employee_id := []\<rparr>) ms2"
  shows "map_sum id (\<lambda>(ms, acc). (map (\<lambda>b. b\<lparr>employee_id := []\<rparr>) ms, acc))
           (crew_loop self now1 st xs (ms1, tr, tt, tb)) =
         map_sum id (\<lambda>(ms, acc). (map (\<lambda>b. b\<lparr>employee_id := []\<rparr>) ms, acc))
           (crew_loop self now2 st xs (ms2, tr, tt, tb))"
  using assms
proof (induction xs arbitrary: ms1 ms2 tr tt tb)
  case Nil
  then show ?case by simp
next
  case (Cons x xs)
  show ?case
  proof (cases "member_position x")
    case None
    then show ?thesis by simp
  next
    case (Some v)
    show ?thesis
    proof (cases "EmployeePosition_of v")
      case (Inl e)
      with Some show ?thesis by (simp add: bind_err_simps)
    next
      case (Inr pos)
      from employee_cost_up_to_id [of self now1 pos st "member_hourly_rate x" None None now2]
      show ?thesis
      proof (cases rule: map_sum_id_eq_cases)
        case (err e)
        with Some Inr show ?thesis by (simp add: bind_err_simps)
      next
        case (ok a b)
        from ok(3) have "hourly_rate (a\<lparr>employee_id := []\<rparr>) =
            hourly_rate (b\<lparr>employee_id := []\<rparr>)"
          "true_hourly_cost (a\<lparr>employee_id := []\<rparr>) =
            true_hourly_cost (b\<lparr>employee_id := []\<rparr>)"
          by simp_all
        then have fields: "hourly_rate a = hourly_rate b"
          "true_hourly_cost a = true_hourly_cost b"
          by simp_all
        from ok(3) Cons.prems
        have "map (\<lambda>b. b\<lparr>employee_id := []\<rparr>) (ms1 @ [a]) =
            map (\<lambda>b. b\<lparr>employee_id := []\<rparr>) (ms2 @ [b])"
          by simp
        from Cons.IH [OF this] Some Inr ok(1,2) fields show ?thesis
          by (simp add: bind_err_simps)
      qed
    qed
  qed
qed

lemma crew_cost_up_to_id:
  "map_sum id (\<lambda>s. s\<lparr>crew_members := map (\<lambda>b. b\<lparr>employee_id := []\<rparr>) (crew_members s)\<rparr>)
     (calculate_crew_cost self now1 xs st) =
   map_sum id (\<lambda>s. s\<lparr>crew_members := map (\<lambda>b. b\<lparr>employee_id := []\<rparr>) (crew_members s)\<rparr>)
     (calculate_crew_cost self now2 xs st)"
proof -
  have "map (\<lambda>b. b\<lparr>employee_id := []\<rparr>) [] = map (\<lambda>b. b\<lparr>employee_id := []\<rparr>) []"
    by simp
  from crew_loop_up_to_id [OF this, of self now1 st xs 0 0 0 now2]
  show ?thesis
  proof (cases rule: map_sum_id_eq_cases)
    case (err e)
    then show ?thesis
      by (simp add: calculate_crew_cost_def bind_err_simps)
  next
    case (ok a b)
    obtain ms1 acc1 ms2 acc2 where ab: "a = (ms1, acc1)" "b = (ms2, acc2)"
      by (cases a, cases b) blast
    with ok(3) have "map (\<lambda>b. b\<lparr>employee_id := []\<rparr>) ms1 =
        map (\<lambda>b. b\<lparr>employee_id := []\<rparr>) ms2" "acc1 = acc2"
      by simp_all
    with ok(1,2) ab show ?thesis
      unfolding calculate_crew_cost_def
      by (cases acc2) (simp add: bind_err_simps map_sum_bind_err)
  qed
qed

lemma loadout_pricing_up_to_id:
  assumes "dt_year now1 = dt_year now2"
  shows "map_sum id (\<lambda>b. b\<lparr>loadout_id := []\<rparr>) (calculate_loadout_pricing self now1 cfg) =
         map_sum id (\<lambda>b. b\<lparr>loadout_id := []\<rparr>) (calculate_loadout_pricing self now2 cfg)"
proof (cases "extract_crew_config (crew_composition cfg)")
  case (Inl e)
  then show ?thesis
    by (simp add: calculate_loadout_pricing_def bind_err_simps)
next
  case (Inr cc)
  from loadout_equipment_cost_up_to_id [OF assms, of "equipment_engine self"
      "equipment_list cfg" cc "cfg_severity_factor cfg"]
  show ?thesis
  proof (cases rule: map_sum_id_eq_cases)
    case (err e)
    with Inr show ?thesis
      by (simp add: calculate_loadout_pricing_def bind_err_simps)
  next
    case equipment: (ok a b)
    from arg_cong [OF equipment(3), of total_equipment_cost_per_hour]
      arg_cong [OF equipment(3), of heavy_total_cost_per_hour]
      arg_cong [OF equipment(3), of small_tools_total_cost_per_hour]
    have equipment_fields:
      "total_equipment_cost_per_hour a = total_equipment_cost_per_hour b"
      "heavy_total_cost_per_hour a = heavy_total_cost_per_hour b"
      "small_tools_total_cost_per_hour a = small_tools_total_cost_per_hour b"
      by simp_all
    from crew_cost_up_to_id [of "employee_calculator self" now1 "crew_composition cfg"
        "cfg_location_state cfg" now2]
    show ?thesis
    proof (cases rule: map_sum_id_eq_cases)
      case (err e)
      with Inr equipment(1,2) show ?thesis
        by (simp add: calculate_loadout_pricing_def bind_err_simps)
    next
      case crew: (ok c d)
      from arg_cong [OF crew(3), of total_true_hourly_cost]
        arg_cong [OF crew(3), of total_base_hourly_rate]
        arg_cong [OF crew(3), of total_burden_cost_per_hour]
      have crew_fields:
        "total_true_hourly_cost c = total_true_hourly_cost d"
        "total_base_hourly_rate c = total_base_hourly_rate d"
        "total_burden_cost_per_hour c = total_burden_cost_per_hour d"
        by simp_all
      show ?thesis
      proof (cases "target_profit_margins self (project_type cfg)")
        case None
        with Inr equipment(1,2) crew(1,2) show ?thesis
          by (simp add: calculate_loadout_pricing_def bind_err_simps)
      next
        case margin: (Some m)
        show ?thesis
        proof (cases "competitive_rates self (project_type cfg)")
          case None
          with margin Inr equipment(1,2) crew(1,2) equipment_fields crew_fields show ?thesis
            by (simp add: calculate_loadout_pricing_def bind_err_simps map_sum_bind_err)
        next
          case (Some cr)
          with margin Inr equipment(1,2) crew(1,2) equipment_fields crew_fields show ?thesis
            by (simp add: calculate_loadout_pricing_def Let_def bind_err_simps map_sum_bind_err)
        qed
      qed
    qed
  qed
qed

lemma chipper_2020_costs:
  "\<not> isl (calculate_equipment_cost EquipmentCostIntelligence_init clock_a CHIPPER None None
            (Some 2020) STANDARD_WORK)"
  "\<not> isl (calculate_equipment_cost EquipmentCostIntelligence_init clock_b CHIPPER None None
            (Some 2020) STANDARD_WORK)"
  "\<not> isl (calculate_equipment_cost EquipmentCostIntelligence_init clock_c CHIPPER None None
            (Some 2020) STANDARD_WORK)"
  "equipment_id (projr (calculate_equipment_cost EquipmentCostIntelligence_init clock_a CHIPPER
     None None (Some 2020) STANDARD_WORK)) = ''chipper_20261103_093000''"
  "equipment_id (projr (calculate_equipment_cost EquipmentCostIntelligence_init clock_b CHIPPER
     None None (Some 2020) STANDARD_WORK)) = ''chipper_20261103_093001''"
  "total_cost_per_hour (projr (calculate_equipment_cost EquipmentCostIntelligence_init clock_a
     CHIPPER None None (Some 2020) STANDARD_WORK)) = 932949388217 / 39062500000"
  "total_cost_per_hour (projr (calculate_equipment_cost EquipmentCostIntelligence_init clock_c
     CHIPPER None None (Some 2020) STANDARD_WORK)) = 22412425772741 / 976562500000"
  by (simp_all add: equipment_defs clock_a_def clock_b_def clock_c_def strftime_stamp_def
      pad4_def pad2_def digit_char_def power_divide)

lemma arborist_ids:
  "\<not> isl (calculate_true_hourly_cost TrueHourlyEmployeeCostCalculator_init clock_a
            ISA_CERTIFIED_ARBORIST FLORIDA None None None)"
  "\<not> isl (calculate_true_hourly_cost TrueHourlyEmployeeCostCalculator_init clock_b
            ISA_CERTIFIED_ARBORIST FLORIDA None None None)"
  "employee_id (projr (calculate_true_hourly_cost TrueHourlyEmployeeCostCalculator_init clock_a
     ISA_CERTIFIED_ARBORIST FLORIDA None None None)) =
     ''isa_certified_arborist_florida_20261103_093000''"
  "employee_id (projr (calculate_true_hourly_cost TrueHourlyEmployeeCostCalculator_init clock_b
     ISA_CERTIFIED_ARBORIST FLORIDA None None None)) =
     ''isa_certified_arborist_florida_20261103_093001''"
  by (simp_all add: employee_defs clock_a_def clock_b_def strftime_stamp_def
      pad4_def pad2_def digit_char_def)

lemma apprentice_loadout_ids:
  "\<not> isl (calculate_loadout_pricing LoadoutPricingIntelligence_init clock_a
            (apprentice_loadout 15))"
  "\<not> isl (calculate_loadout_pricing LoadoutPricingIntelligence_init clock_b
            (apprentice_loadout 15))"
  "loadout_id (projr (calculate_loadout_pricing LoadoutPricingIntelligence_init clock_a
     (apprentice_loadout 15))) = ''tree_trimming_florida_20261103_093000''"
  "loadout_id (projr (calculate_loadout_pricing LoadoutPricingIntelligence_init clock_b
     (apprentice_loadout 15))) = ''tree_trimming_florida_20261103_093001''"
  by (simp_all add: apprentice_loadout_def loadout_defs employee_defs equipment_defs
      clock_a_def clock_b_def strftime_stamp_def pad4_def pad2_def digit_char_def)

text \<open>
  Claim C9 says that two calls of a core function with identical inputs yield identical
  outputs, no hidden state influencing any field. The clock is such a state. Two calls of
  \<open>calculate_equipment_cost\<close> for a chipper of model year 2020 one second apart return
  different \<open>equipment_id\<close>s; a year apart they return different costs per hour, the
  purchase price being depreciated by the age of the machine. Two calls of
  \<open>calculate_true_hourly_cost\<close> and of \<open>calculate_loadout_pricing\<close> one second apart return
  different \<open>employee_id\<close>s and \<open>loadout_id\<close>s.
\<close>

theorem clock_dependent_results_counterexample:
  "equipment_id (projr (calculate_equipment_cost EquipmentCostIntelligence_init clock_a CHIPPER
     None None (Some 2020) STANDARD_WORK)) = ''chipper_20261103_093000'' \<and>
   equipment_id (projr (calculate_equipment_cost EquipmentCostIntelligence_init clock_b CHIPPER
     None None (Some 2020) STANDARD_WORK)) = ''chipper_20261103_093001'' \<and>
   calculate_equipment_cost EquipmentCostIntelligence_init clock_a CHIPPER None None
     (Some 2020) STANDARD_WORK \<noteq>
   calculate_equipment_cost EquipmentCostIntelligence_init clock_b CHIPPER None None
     (Some 2020) STANDARD_WORK \<and>
   total_cost_per_hour (projr (calculate_equipment_cost EquipmentCostIntelligence_init clock_a
     CHIPPER None None (Some 2020) STANDARD_WORK)) = 932949388217 / 39062500000 \<and>
   total_cost_per_hour (projr (calculate_equipment_cost EquipmentCostIntelligence_init clock_c
     CHIPPER None None (Some 2020) STANDARD_WORK)) = 22412425772741 / 976562500000 \<and>
   total_cost_per_hour (projr (calculate_equipment_cost EquipmentCostIntelligence_init clock_a
     CHIPPER None None (Some 2020) STANDARD_WORK)) \<noteq>
   total_cost_per_hour (projr (calculate_equipment_cost EquipmentCostIntelligence_init clock_c
     CHIPPER None None (Some 2020) STANDARD_WORK)) \<and>
   calculate_true_hourly_cost TrueHourlyEmployeeCostCalculator_init clock_a
     ISA_CERTIFIED_ARBORIST FLORIDA None None None \<noteq>
   calculate_true_hourly_cost TrueHourlyEmployeeCostCalculator_init clock_b
     ISA_CERTIFIED_ARBORIST FLORIDA None None None \<and>
   calculate_loadout_pricing LoadoutPricingIntelligence_init clock_a (apprentice_loadout 15) \<noteq>
   calculate_loadout_pricing LoadoutPricingIntelligence_init clock_b (apprentice_loadout 15)"
proof -
  have "calculate_equipment_cost EquipmentCostIntelligence_init clock_a CHIPPER None None
     (Some 2020) STANDARD_WORK \<noteq>
   calculate_equipment_cost EquipmentCostIntelligence_init clock_b CHIPPER None None
     (Some 2020) STANDARD_WORK"
  proof
    assume "calculate_equipment_cost EquipmentCostIntelligence_init clock_a CHIPPER None None
     (Some 2020) STANDARD_WORK =
     calculate_equipment_cost EquipmentCostIntelligence_init clock_b CHIPPER None None
     (Some 2020) STANDARD_WORK"
    from arg_cong [OF this, of "\<lambda>r. equipment_id (projr r)"] show False
      unfolding chipper_2020_costs(4,5) by simp
  qed
  moreover
  have "calculate_true_hourly_cost TrueHourlyEmployeeCostCalculator_init clock_a
     ISA_CERTIFIED_ARBORIST FLORIDA None None None \<noteq>
   calculate_true_hourly_cost TrueHourlyEmployeeCostCalculator_init clock_b
     ISA_CERTIFIED_ARBORIST FLORIDA None None None"
  proof
    assume "calculate_true_hourly_cost TrueHourlyEmployeeCostCalculator_init clock_a
     ISA_CERTIFIED_ARBORIST FLORIDA None None None =
     calculate_true_hourly_cost TrueHourlyEmployeeCostCalculator_init clock_b
     ISA_CERTIFIED_ARBORIST FLORIDA None None None"
    from arg_cong [OF this, of "\<lambda>r. employee_id (projr r)"] show False
      unfolding arborist_ids(3,4) by simp
  qed
  moreover
  have "calculate_loadout_pricing LoadoutPricingIntelligence_init clock_a
      (apprentice_loadout 15) \<noteq>
    calculate_loadout_pricing LoadoutPricingIntelligence_init clock_b (apprentice_loadout 15)"
  proof
    assume "calculate_loadout_pricing LoadoutPricingIntelligence_init clock_a
      (apprentice_loadout 15) =
      calculate_loadout_pricing LoadoutPricingIntelligence_init clock_b (apprentice_loadout 15)"
    from arg_cong [OF this, of "\<lambda>r. loadout_id (projr r)"] show False
      unfolding apprentice_loadout_ids(3,4) by simp
  qed
  ultimately show ?thesis
    unfolding chipper_2020_costs(4,5,6,7) by simp
qed

text \<open>
  Claim C9, amended. Two calls with identical arguments agree except for what is read from
  the clock. The results of \<open>calculate_true_hourly_cost\<close> agree in every field but the
  \<open>employee_id\<close>, whatever the two clock readings: both raise the same error, or both return
  and the breakdowns are equal once the identifier is blanked. When the two calls fall in
  the same calendar year, the results of \<open>calculate_equipment_cost\<close> agree in every field
  but the \<open>equipment_id\<close>, and those of \<open>calculate_loadout_pricing\<close> in every field but the
  \<open>loadout_id\<close>. The AFISS score and the TreeScore read no clock.
\<close>

theorem results_agree_up_to_generated_id:
  "map_sum id (\<lambda>b. b\<lparr>employee_id := []\<rparr>)
     (calculate_true_hourly_cost calc now1 pos st rate bf npt) =
   map_sum id (\<lambda>b. b\<lparr>employee_id := []\<rparr>)
     (calculate_true_hourly_cost calc now2 pos st rate bf npt) \<and>
   (dt_year now1 = dt_year now2 \<longrightarrow>
      map_sum id (\<lambda>b. b\<lparr>equipment_id := []\<rparr>)
        (calculate_equipment_cost engine now1 ty mk pp y sev) =
      map_sum id (\<lambda>b. b\<lparr>equipment_id := []\<rparr>)
        (calculate_equipment_cost engine now2 ty mk pp y sev) \<and>
      map_sum id (\<lambda>b. b\<lparr>loadout_id := []\<rparr>) (calculate_loadout_pricing self now1 cfg) =
      map_sum id (\<lambda>b. b\<lparr>loadout_id := []\<rparr>) (calculate_loadout_pricing self now2 cfg))"
  using employee_cost_up_to_id equipment_cost_up_to_id loadout_pricing_up_to_id
  by blast

text \<open>
  The chipper, the arborist and the one-apprentice loadout at two clock readings one second
  apart: all six calls return, and the results agree once the identifiers are blanked.
\<close>

theorem results_agree_up_to_generated_id_witness:
  "dt_year clock_a = dt_year clock_b \<and> clock_a \<noteq> clock_b \<and>
   \<not> isl (calculate_true_hourly_cost TrueHourlyEmployeeCostCalculator_init clock_a
            ISA_CERTIFIED_ARBORIST FLORIDA None None None) \<and>
   \<not> isl (calculate_equipment_cost EquipmentCostIntelligence_init clock_a CHIPPER None None
            (Some 2020) STANDARD_WORK) \<and>
   \<not> isl (calculate_loadout_pricing LoadoutPricingIntelligence_init clock_a
            (apprentice_loadout 15)) \<and>
   map_sum id (\<lambda>b. b\<lparr>employee_id := []\<rparr>)
     (calculate_true_hourly_cost TrueHourlyEmployeeCostCalculator_init clock_a
        ISA_CERTIFIED_ARBORIST FLORIDA None None None) =
   map_sum id (\<lambda>b. b\<lparr>employee_id := []\<rparr>)
     (calculate_true_hourly_cost TrueHourlyEmployeeCostCalculator_init clock_b
        ISA_CERTIFIED_ARBORIST FLORIDA None None None) \<and>
   map_sum id (\<lambda>b. b\<lparr>equipment_id := []\<rparr>)
     (calculate_equipment_cost EquipmentCostIntelligence_init clock_a CHIPPER None None
        (Some 2020) STANDARD_WORK) =
   map_sum id (\<lambda>b. b\<lparr>equipment_id := []\<rparr>)
     (calculate_equipment_cost EquipmentCostIntelligence_init clock_b CHIPPER None None
        (Some 2020) STANDARD_WORK) \<and>
   map_sum id (\<lambda>b. b\<lparr>loadout_id := []\<rparr>)
     (calculate_loadout_pricing LoadoutPricingIntelligence_init clock_a
        (apprentice_loadout 15)) =
   map_sum id (\<lambda>b. b\<lparr>loadout_id := []\<rparr>)
     (calculate_loadout_pricing LoadoutPricingIntelligence_init clock_b
        (apprentice_loadout 15))"
proof -
  have clocks: "dt_year clock_a = dt_year clock_b" "clock_a \<noteq> clock_b"
    by (simp_all add: clock_a_def clock_b_def)
  from results_agree_up_to_generated_id [of TrueHourlyEmployeeCostCalculator_init clock_a
      ISA_CERTIFIED_ARBORIST FLORIDA None None None clock_b EquipmentCostIntelligence_init
      CHIPPER None None "Some 2020" STANDARD_WORK LoadoutPricingIntelligence_init
      "apprentice_loadout 15"] clocks
  show ?thesis
    using chipper_2020_costs(1) arborist_ids(1) apprentice_loadout_ids(1) by blast
qed

end
